theory Spec2Isabelle
  imports Main "HOL-Library.Char_ord" "HOL-Library.List_Lexorder"
begin

section \<open>Python and numpy primitives used by \<open>emotion_recognition/dataset.py\<close>\<close>

text \<open>
  Exceptions are values. The constructors name the Python exception classes the module
  raises or lets escape; \<open>NotImplementedError\<close> and \<open>AttributeError\<close> carry the message
  the source passes, because the module raises \<open>NotImplementedError\<close> at two places.
\<close>

datatype error =
    NotImplementedError string
  | AttributeError string
  | ValueError
  | IndexError
  | TypeError
  | KeyError
  | AssertionError

definition bindE :: "error + 'a \<Rightarrow> ('a \<Rightarrow> error + 'b) \<Rightarrow> error + 'b" where
  "bindE m f = (case m of Inl e \<Rightarrow> Inl e | Inr v \<Rightarrow> f v)"

text \<open>A list comprehension whose body may raise: the first exception escapes.\<close>

fun mapE :: "('a \<Rightarrow> error + 'b) \<Rightarrow> 'a list \<Rightarrow> error + 'b list" where
  "mapE f [] = Inr []"
| "mapE f (a # as) =
     (case f a of
        Inl e \<Rightarrow> Inl e
      | Inr b \<Rightarrow> (case mapE f as of Inl e \<Rightarrow> Inl e | Inr bs \<Rightarrow> Inr (b # bs)))"

text \<open>\<open>xs[i]\<close> for a non-negative index: out of range raises \<open>IndexError\<close>.\<close>

definition getitem :: "'a list \<Rightarrow> nat \<Rightarrow> error + 'a" where
  "getitem xs i = (if i < length xs then Inr (xs ! i) else Inl IndexError)"

text \<open>\<open>xs.index(v)\<close>: position of the first occurrence, \<open>ValueError\<close> if there is none.\<close>

fun index_from :: "nat \<Rightarrow> 'a list \<Rightarrow> 'a \<Rightarrow> error + nat" where
  "index_from k [] v = Inl ValueError"
| "index_from k (a # as) v = (if a = v then Inr k else index_from (Suc k) as v)"

definition index :: "'a list \<Rightarrow> 'a \<Rightarrow> error + nat" where
  "index xs v = index_from 0 xs v"

text \<open>\<open>xs[st:en]\<close> for non-negative bounds (the bounds are clipped, never raise).\<close>

definition py_slice :: "'a list \<Rightarrow> nat \<Rightarrow> nat \<Rightarrow> 'a list" where
  "py_slice xs st en = drop st (take en xs)"

text \<open>\<open>np.cumsum\<close> on a vector of lengths.\<close>

fun cumsum_from :: "nat \<Rightarrow> nat list \<Rightarrow> nat list" where
  "cumsum_from acc [] = []"
| "cumsum_from acc (s # ss) = (acc + s) # cumsum_from (acc + s) ss"

definition cumsum :: "nat list \<Rightarrow> nat list" where
  "cumsum ss = cumsum_from 0 ss"

text \<open>
  \<open>np.split(ary, indices, axis=0)\<close> with a list of split points: numpy forms
  \<open>div_points = [0] + indices + [len(ary)]\<close> and returns the slices
  \<open>ary[div_points[i]:div_points[i+1]]\<close>, one more than there are split points.
  \<open>split_from st\<close> walks the consecutive pairs, \<open>st\<close> being the left end of the next slice.
\<close>

fun split_from :: "nat \<Rightarrow> 'a list \<Rightarrow> nat list \<Rightarrow> 'a list list" where
  "split_from st ary [] = [py_slice ary st (length ary)]"
| "split_from st ary (e # es) = py_slice ary st e # split_from e ary es"

definition np_split :: "'a list \<Rightarrow> nat list \<Rightarrow> 'a list list" where
  "np_split ary indices = split_from 0 ary indices"

text \<open>
  \<open>np.concatenate\<close> along axis 0 of a sequence of arrays, each a list of its axis-0
  entries: an empty sequence raises \<open>ValueError\<close>. It is used for vectors of indices and,
  in \<open>_make_flat\<close>, for 2-D arrays that are taken to have one number of columns.
\<close>

definition np_concatenate :: "'a list list \<Rightarrow> error + 'a list" where
  "np_concatenate as = (if as = [] then Inl ValueError else Inr (concat as))"

text \<open>
  The feature matrix \<open>x\<close> in its three layouts: a contiguous 2-D array (one row per
  instance), a contiguous 3-D array (one 2-D block per instance) and an array of dtype
  \<open>object\<close> holding one 2-D array per instance (variable length). The fourth value is
  not an array: \<open>normalise\<close> with the scheme \<open>all\<close> stores the Python list that
  \<open>_make_ragged\<close> returns (the source marks it FIXME); a list has no \<open>dtype\<close> and takes
  no list of indices. A 2-D array is the list of its rows: the number of columns of an
  array without rows is not recorded.
\<close>

datatype 'a arr =
    Arr2 "'a list list"
  | Arr3 "'a list list list"
  | Ragged "'a list list list"
  | ListOfArrays "'a list list list"

text \<open>
  \<open>np.reshape(x, (n, t, f))\<close> of a 2-D array \<open>x\<close> of \<open>f\<close> columns, in row-major order:
  \<open>n\<close> blocks of \<open>t\<close> consecutive rows; a different number of rows raises \<open>ValueError\<close>
  (the caller asserts the number of rows before).
\<close>

fun blocks :: "nat \<Rightarrow> nat \<Rightarrow> 'a list \<Rightarrow> 'a list list" where
  "blocks 0 t xs = []"
| "blocks (Suc n) t xs = take t xs # blocks n t (drop t xs)"

definition np_reshape3 :: "'a list list \<Rightarrow> nat \<Rightarrow> nat \<Rightarrow> error + 'a arr" where
  "np_reshape3 x n t = (if length x = n * t then Inr (Arr3 (blocks n t x)) else Inl ValueError)"

section \<open>Further numpy primitives\<close>

text \<open>
  numpy vectors of indices and counts are lists of naturals; the dtype of an array and
  the trailing dimensions of an empty array are not recorded by this representation.
\<close>

text \<open>
  \<open>np.bincount(v, minlength=m)\<close>: one counter per value from 0 to the largest value of
  \<open>v\<close>, and at least \<open>m\<close> counters. Without \<open>minlength\<close> the argument is 0.
\<close>

definition np_bincount :: "nat list \<Rightarrow> nat \<Rightarrow> nat list" where
  "np_bincount v minlength =
     map (\<lambda>k. count_list v k)
       [0..<max minlength (if v = [] then 0 else Suc (fold max v 0))]"

text \<open>
  \<open>np.bincount(self.y)\<close> on a label vector that \<open>np.array\<close> built from a list without a
  dtype (lines 529, 574, 659): the empty list gives an array of dtype float64, which
  \<open>np.bincount\<close> refuses with \<open>TypeError\<close>. (The speaker indices are built with \<open>dtype=int\<close>.)
  An empty label vector is therefore always the float64 array.
\<close>

definition bincount_labels :: "nat list \<Rightarrow> error + nat list" where
  "bincount_labels ys = (if ys = [] then Inl TypeError else Inr (np_bincount ys 0))"

text \<open>\<open>np.nonzero(cond)[0]\<close> for a boolean vector: the positions holding \<open>True\<close>, ascending.\<close>

definition np_nonzero :: "bool list \<Rightarrow> nat list" where
  "np_nonzero cond = filter (\<lambda>i. cond ! i) [0..<length cond]"

text \<open>\<open>np.repeat(np.arange(k), sizes)\<close>: value \<open>j\<close> repeated \<open>sizes[j]\<close> times.\<close>

definition np_repeat_arange :: "nat list \<Rightarrow> nat list" where
  "np_repeat_arange sizes = concat (map (\<lambda>j. replicate (sizes ! j) j) [0..<length sizes])"

text \<open>\<open>a[idx]\<close> with a list of non-negative indices (and \<open>[a[i] for i in idx]\<close> on a list).\<close>

definition getitems :: "'a list \<Rightarrow> nat list \<Rightarrow> error + 'a list" where
  "getitems xs idx = mapE (getitem xs) idx"

text \<open>
  \<open>a[idx] = vals\<close> with a list of indices: as many values as indices, assigned in order.
\<close>

fun setitems_loop :: "'a list \<Rightarrow> nat list \<Rightarrow> 'a list \<Rightarrow> error + 'a list" where
  "setitems_loop xs [] vs = Inr xs"
| "setitems_loop xs (i # idx) [] = Inl ValueError"
| "setitems_loop xs (i # idx) (v # vs) =
     (if i < length xs then setitems_loop (xs[i := v]) idx vs else Inl IndexError)"

definition setitems :: "'a list \<Rightarrow> nat list \<Rightarrow> 'a list \<Rightarrow> error + 'a list" where
  "setitems xs idx vs =
     (if length idx \<noteq> length vs then Inl ValueError else setitems_loop xs idx vs)"

text \<open>Operations on the layouts of \<open>x\<close>, all along axis 0 (the instances).\<close>

fun arr_len :: "'a arr \<Rightarrow> nat" where
  "arr_len (Arr2 rows) = length rows"
| "arr_len (Arr3 items) = length items"
| "arr_len (Ragged items) = length items"
| "arr_len (ListOfArrays items) = length items"

text \<open>
  \<open>x[idx]\<close> with a list of indices; on a Python list this raises \<open>TypeError\<close> (list indices
  must be integers or slices).
\<close>

fun arr_getitems :: "'a arr \<Rightarrow> nat list \<Rightarrow> error + 'a arr" where
  "arr_getitems (Arr2 rows) idx = bindE (getitems rows idx) (\<lambda>r. Inr (Arr2 r))"
| "arr_getitems (Arr3 items) idx = bindE (getitems items idx) (\<lambda>r. Inr (Arr3 r))"
| "arr_getitems (Ragged items) idx = bindE (getitems items idx) (\<lambda>r. Inr (Ragged r))"
| "arr_getitems (ListOfArrays items) idx = Inl TypeError"

fun arr2_rows :: "'a arr \<Rightarrow> error + 'a list list" where
  "arr2_rows (Arr2 rows) = Inr rows"
| "arr2_rows (Arr3 items) = Inl ValueError"
| "arr2_rows (Ragged items) = Inl ValueError"
| "arr2_rows (ListOfArrays items) = Inl ValueError"

fun arr3_items :: "'a arr \<Rightarrow> error + 'a list list list" where
  "arr3_items (Arr2 rows) = Inl ValueError"
| "arr3_items (Arr3 items) = Inr items"
| "arr3_items (Ragged items) = Inl ValueError"
| "arr3_items (ListOfArrays items) = Inl ValueError"

fun ragged_items :: "'a arr \<Rightarrow> error + 'a list list list" where
  "ragged_items (Arr2 rows) = Inl ValueError"
| "ragged_items (Arr3 items) = Inl ValueError"
| "ragged_items (Ragged items) = Inr items"
| "ragged_items (ListOfArrays items) = Inl ValueError"

text \<open>All lists of a list have the length of the first.\<close>

definition same_length :: "'b list list \<Rightarrow> bool" where
  "same_length xs = (case xs of [] \<Rightarrow> True | x # _ \<Rightarrow> list_all (\<lambda>y. length y = length x) xs)"

text \<open>
  \<open>np.asarray\<close> on a value of \<open>x\<close>, as \<open>np.concatenate\<close> applies it to each argument: an
  array is itself; a Python list of 2-D arrays of one shape becomes a 3-D array, and any
  other list an array of dtype \<open>object\<close> (numpy before 1.24; an empty list becomes an empty
  1-D array).
\<close>

fun as_array :: "'a arr \<Rightarrow> 'a arr" where
  "as_array (Arr2 rows) = Arr2 rows"
| "as_array (Arr3 items) = Arr3 items"
| "as_array (Ragged items) = Ragged items"
| "as_array (ListOfArrays items) =
     (if items \<noteq> [] \<and> same_length items \<and> same_length (concat items) then Arr3 items
      else Ragged items)"

text \<open>
  \<open>np.concatenate\<close> of feature matrices along axis 0: no array at all, arrays of different
  numbers of dimensions, or arrays whose trailing dimensions differ (rows of different
  length, 2-D blocks of different numbers of rows) raise \<open>ValueError\<close>.
\<close>

definition np_concatenate_arr :: "'a arr list \<Rightarrow> error + 'a arr" where
  "np_concatenate_arr as =
     (case map as_array as of
        [] \<Rightarrow> Inl ValueError
      | Arr2 _ # _ \<Rightarrow>
          bindE (mapE arr2_rows (map as_array as)) (\<lambda>rs.
            if same_length (concat rs) then Inr (Arr2 (concat rs)) else Inl ValueError)
      | Arr3 _ # _ \<Rightarrow>
          bindE (mapE arr3_items (map as_array as)) (\<lambda>rs.
            if same_length (concat rs) \<and> same_length (concat (concat rs))
            then Inr (Arr3 (concat rs)) else Inl ValueError)
      | Ragged _ # _ \<Rightarrow>
          bindE (mapE ragged_items (map as_array as)) (\<lambda>rs. Inr (Ragged (concat rs)))
      | ListOfArrays _ # _ \<Rightarrow> Inl ValueError)"

section \<open>pathlib and string helpers\<close>

text \<open>
  A path is a string with the separator \<open>/\<close>. \<open>path_name\<close> is \<open>Path.name\<close>, the final
  component (pathlib drops empty components and \<open>.\<close> components); \<open>suffix\<close>, \<open>suffixes\<close>
  and \<open>stem\<close> are pathlib's functions of that component.
\<close>

definition rfind :: "char \<Rightarrow> string \<Rightarrow> nat option" where
  "rfind c s =
     (let ps = filter (\<lambda>i. s ! i = c) [0..<length s]
      in if ps = [] then None else Some (last ps))"

fun split_on :: "char \<Rightarrow> string \<Rightarrow> string list" where
  "split_on c [] = [[]]"
| "split_on c (a # as) =
     (if a = c then [] # split_on c as
      else (case split_on c as of
              [] \<Rightarrow> [[a]]
            | w # ws \<Rightarrow> (a # w) # ws))"

definition path_name :: "string \<Rightarrow> string" where
  "path_name path =
     (case filter (\<lambda>c. c \<noteq> [] \<and> c \<noteq> ''.'') (split_on (CHR ''/'') path) of
        [] \<Rightarrow> []
      | c # cs \<Rightarrow> last (c # cs))"

definition suffix :: "string \<Rightarrow> string" where
  "suffix path =
     (let name = path_name path
      in (case rfind (CHR ''.'') name of
            None \<Rightarrow> []
          | Some i \<Rightarrow> if 0 < i \<and> i + 1 < length name then drop i name else []))"

definition stem :: "string \<Rightarrow> string" where
  "stem path =
     (let name = path_name path
      in (case rfind (CHR ''.'') name of
            None \<Rightarrow> name
          | Some i \<Rightarrow> if 0 < i \<and> i + 1 < length name then take i name else name))"

definition suffixes :: "string \<Rightarrow> string list" where
  "suffixes path =
     (let name = path_name path
      in if name \<noteq> [] \<and> last name = CHR ''.'' then []
         else map (\<lambda>s. CHR ''.'' # s)
                (tl (split_on (CHR ''.'') (dropWhile (\<lambda>c. c = CHR ''.'') name))))"

text \<open>
  \<open>str.lower\<close>. Characters are bytes here, and only the ASCII letters are lowered: corpus
  names with letters outside ASCII are not covered.
\<close>

definition lower :: "string \<Rightarrow> string" where
  "lower s =
     map (\<lambda>c. if CHR ''A'' \<le> c \<and> c \<le> CHR ''Z'' then char_of (of_char c + (32 :: nat)) else c) s"

text \<open>\<open>str(n)\<close> for a natural number, used by \<open>'feature_{}'.format(i + 1)\<close>.\<close>

fun digits :: "nat \<Rightarrow> string" where
  "digits n =
     (if n < 10 then [char_of (48 + n)]
      else digits (n div 10) @ [char_of (48 + n mod 10)])"

section \<open>The array reshaper\<close>

text \<open>\<open>_make_flat\<close>: the lengths of the sequences and their concatenation.\<close>

definition make_flat :: "'a list list list \<Rightarrow> error + ('a list list \<times> nat list)" where
  "make_flat a =
     (let slices = map length a
      in bindE (np_concatenate a) (\<lambda>flat. Inr (flat, slices)))"

text \<open>\<open>_make_ragged\<close>: split the flat buffer at the cumulative lengths but the last.\<close>

definition make_ragged :: "'a list list \<Rightarrow> nat list \<Rightarrow> 'a list list list" where
  "make_ragged flat slices =
     (let indices = cumsum slices
      in np_split flat (butlast indices))"

text \<open>
  \<open>_reshape_data_array\<close>. \<open>slices[0]\<close> raises on an empty vector, the \<open>assert\<close> raises
  \<open>AssertionError\<close>, and \<open>x[0]\<close> raises on an empty buffer.
\<close>

definition reshape_data_array :: "'a list list \<Rightarrow> nat list \<Rightarrow> error + 'a arr" where
  "reshape_data_array x slices =
     (if length x = length slices then Inr (Arr2 x)
      else (case slices of
              [] \<Rightarrow> Inl IndexError
            | s0 # _ \<Rightarrow>
                if list_all (\<lambda>s. s = s0) slices then
                  (if length x mod length slices \<noteq> 0 then Inl AssertionError
                   else (let seq_len = length x div length slices
                         in (case x of
                               [] \<Rightarrow> Inl IndexError
                             | x0 # _ \<Rightarrow> np_reshape3 x (length slices) seq_len)))
                else (let indices = cumsum slices
                      in Inr (Ragged (np_split x (butlast indices))))))"

section \<open>Storage backends\<close>

text \<open>
  What a backend hands to \<open>Dataset.__init__\<close>. \<open>backend_labels\<close> is \<open>None\<close> when the
  container carries no nominal labels.
\<close>

record 'a backend =
  backend_corpus :: string
  backend_names :: "string list"
  backend_features :: "'a arr"
  backend_labels :: "string list option"
  backend_feature_names :: "string list"

text \<open>
  The content of an opened netCDF4 container, as \<open>NetCDFBackend.__init__\<close> reads it:
  the \<open>corpus\<close> attribute (\<open>None\<close> when \<open>hasattr(dataset, 'corpus')\<close> is false), the
  variables \<open>filename\<close>, \<open>features\<close>, \<open>slices\<close> and (optionally) \<open>label_nominal\<close>, and
  the size of the feature dimension.
\<close>

record 'a netcdf =
  nc_corpus :: "string option"
  nc_filename :: "string list"
  nc_feature_dim_size :: nat
  nc_features :: "'a list list"
  nc_slices :: "nat list"
  nc_label_nominal :: "string list option"

text \<open>
  The decoders are external: \<open>open_netcdf\<close> stands for \<open>netCDF4.Dataset(path)\<close>, and the
  raw-audio and ARFF backends are taken whole.
\<close>

record 'a io =
  open_netcdf :: "string \<Rightarrow> error + 'a netcdf"
  raw_audio_backend :: "string \<Rightarrow> error + 'a backend"
  arff_backend :: "string \<Rightarrow> error + 'a backend"

definition NetCDFBackend_init :: "'a io \<Rightarrow> string \<Rightarrow> error + 'a backend" where
  "NetCDFBackend_init io path =
     bindE (open_netcdf io path) (\<lambda>dataset.
       case nc_corpus dataset of
         None \<Rightarrow> Inl (AttributeError (''Dataset at '' @ path @ '' has no corpus metadata.''))
       | Some c \<Rightarrow>
           (let names = map stem (nc_filename dataset);
                feature_names =
                  map (\<lambda>i. ''feature_'' @ digits (i + 1)) [0..<nc_feature_dim_size dataset]
            in bindE (reshape_data_array (nc_features dataset) (nc_slices dataset)) (\<lambda>f.
                 Inr \<lparr>backend_corpus = c, backend_names = names, backend_features = f,
                      backend_labels = nc_label_nominal dataset,
                      backend_feature_names = feature_names\<rparr>)))"

section \<open>Dataset\<close>

text \<open>
  An entry of the \<open>corpora\<close> table of the module \<open>emotion_recognition.corpora\<close>, which is
  not among the sources: the table is a parameter of the constructors.
\<close>

record corpus_info =
  info_speakers :: "string list"
  info_male_speakers :: "string list"
  info_female_speakers :: "string list"
  info_speaker_groups :: "string set list"
  info_emotion_map :: "(string \<times> string) list"
  info_get_speaker :: "string \<Rightarrow> string"

text \<open>
  The attributes of a \<open>Dataset\<close>. An attribute that a constructor may leave unset is an
  option (\<open>CombinedDataset.__init__\<close> does not call the parent constructor and never
  sets \<open>_speaker_counts\<close>, the sex attributes or \<open>_class_counts\<close>); reading an unset
  attribute raises \<open>AttributeError\<close>. The fields \<open>x_arr\<close> and \<open>y_arr\<close> are the attributes
  \<open>x\<close> and \<open>y\<close>. The attributes \<open>backend\<close> and \<open>_labels\<close> are read by no operation below
  after construction and are not fields.
\<close>

record 'a dataset =
  corpus :: string
  names :: "string list"
  features :: "string list"
  x_arr :: "'a arr"
  speakers :: "string list"
  speaker_indices :: "nat list"
  speaker_counts :: "nat list option"
  male_speakers :: "string list option"
  female_speakers :: "string list option"
  male_indices :: "nat list option"
  female_indices :: "nat list option"
  speaker_groups :: "string set list"
  speaker_group_indices :: "nat list"

definition n_instances :: "('a, 'z) dataset_scheme \<Rightarrow> nat" where
  "n_instances d = length (names d)"

definition select_backend :: "'a io \<Rightarrow> string \<Rightarrow> error + 'a backend" where
  "select_backend io path =
     (if suffix path = ''.nc'' then NetCDFBackend_init io path
      else if suffix path = ''.txt'' then raw_audio_backend io path
      else bindE (getitem (suffixes path) 0) (\<lambda>s0.
             if s0 = ''.arff'' then arff_backend io path
             else Inl (NotImplementedError ''Unknown filetype.'')))"

definition Dataset_fields ::
  "corpus_info \<Rightarrow> 'a backend \<Rightarrow> error + 'a dataset" where
  "Dataset_fields info b =
     (let nms = backend_names b;
          sps = info_speakers info;
          get_speaker = info_get_speaker info
      in bindE (mapE (\<lambda>n. index sps (get_speaker n)) nms) (\<lambda>sidx.
           let counts = np_bincount sidx (length sps);
               males = info_male_speakers info;
               females = info_female_speakers info;
               both = (males \<noteq> [] \<and> females \<noteq> []);
               m_idx = filter (\<lambda>i. get_speaker (nms ! i) \<in> set males) [0..<length nms];
               f_idx = filter (\<lambda>i. get_speaker (nms ! i) \<in> set females) [0..<length nms];
               groups = info_speaker_groups info;
               speaker_indices_to_group =
                 concat (map (\<lambda>sp. filter (\<lambda>i. sp \<in> groups ! i) [0..<length groups]) sps)
           in bindE (getitems speaker_indices_to_group sidx) (\<lambda>gidx.
                Inr \<lparr>corpus = backend_corpus b, names = nms,
                     features = backend_feature_names b, x_arr = backend_features b,
                     speakers = sps, speaker_indices = sidx, speaker_counts = Some counts,
                     male_speakers = Some males, female_speakers = Some females,
                     male_indices = (if both then Some m_idx else None),
                     female_indices = (if both then Some f_idx else None),
                     speaker_groups = groups, speaker_group_indices = gidx\<rparr>)))"

text \<open>
  \<open>Dataset.__init__\<close>: choose the backend by the file suffix, look the corpus up, derive
  the speaker arrays. The backend is returned with the dataset (attribute \<open>backend\<close>).
\<close>

definition Dataset_init ::
  "'a io \<Rightarrow> (string \<rightharpoonup> corpus_info) \<Rightarrow> string \<Rightarrow> error + ('a backend \<times> 'a dataset)" where
  "Dataset_init io corpora_table path =
     bindE (select_backend io path) (\<lambda>b.
       case corpora_table (lower (backend_corpus b)) of
         None \<Rightarrow>
           Inl (NotImplementedError
                  (''Corpus '' @ backend_corpus b @ '' hasn't been implemented yet.''))
       | Some info \<Rightarrow> bindE (Dataset_fields info b) (\<lambda>d. Inr (b, d)))"

text \<open>
  The body shared by the \<open>speaker\<close> and \<open>corpus\<close> schemes of \<open>normalise\<close>: transform the
  instances at \<open>idx\<close> and assign them back. The transformer's \<open>fit_transform\<close> is a function
  \<open>nrm\<close> on a 2-D buffer. The test \<open>x.dtype == object or len(x.shape) == 3\<close> separates the
  layouts \<open>Arr3\<close> and \<open>Ragged\<close>, which are flattened first, from \<open>Arr2\<close>; on a Python list
  \<open>x.dtype\<close> raises \<open>AttributeError\<close>.
\<close>

definition normalise_subset ::
  "('a list list \<Rightarrow> 'a list list) \<Rightarrow> 'a arr \<Rightarrow> nat list \<Rightarrow> error + 'a arr" where
  "normalise_subset nrm xa idx =
     (case xa of
        Arr2 rows \<Rightarrow>
          bindE (getitems rows idx) (\<lambda>sub.
          bindE (setitems rows idx (nrm sub)) (\<lambda>rows'. Inr (Arr2 rows')))
      | Arr3 items \<Rightarrow>
          bindE (getitems items idx) (\<lambda>sub.
          bindE (make_flat sub) (\<lambda>(flat, slices).
          bindE (setitems items idx (make_ragged (nrm flat) slices)) (\<lambda>items'.
            Inr (Arr3 items'))))
      | Ragged items \<Rightarrow>
          bindE (getitems items idx) (\<lambda>sub.
          bindE (make_flat sub) (\<lambda>(flat, slices).
          bindE (setitems items idx (make_ragged (nrm flat) slices)) (\<lambda>items'.
            Inr (Ragged items'))))
      | ListOfArrays items \<Rightarrow> Inl (AttributeError ''dtype''))"

text \<open>The loop of the \<open>speaker\<close> scheme over \<open>range(len(self.speakers))\<close>.\<close>

fun normalise_speakers ::
  "('a list list \<Rightarrow> 'a list list) \<Rightarrow> nat list \<Rightarrow> nat list option \<Rightarrow> nat list \<Rightarrow> 'a arr
     \<Rightarrow> error + 'a arr" where
  "normalise_speakers nrm sidx counts [] xa = Inr xa"
| "normalise_speakers nrm sidx counts (sp # sps) xa =
     (let idx = np_nonzero (map (\<lambda>i. i = sp) sidx)
      in (case counts of
            None \<Rightarrow> Inl (AttributeError ''_speaker_counts'')
          | Some cs \<Rightarrow>
              bindE (getitem cs sp) (\<lambda>c.
                if c = 0 then normalise_speakers nrm sidx counts sps xa
                else bindE (normalise_subset nrm xa idx)
                       (normalise_speakers nrm sidx counts sps))))"

text \<open>
  \<open>Dataset.normalise\<close>; a scheme other than \<open>all\<close> and \<open>speaker\<close> matches no branch. With
  the scheme \<open>all\<close> a 3-D or ragged \<open>x\<close> is replaced by the Python list of the normalised
  sequences.
\<close>

definition normalise ::
  "('a list list \<Rightarrow> 'a list list) \<Rightarrow> string \<Rightarrow> ('a, 'z) dataset_scheme
     \<Rightarrow> error + ('a, 'z) dataset_scheme" where
  "normalise nrm scheme d =
     (if scheme = ''all'' then
        (case x_arr d of
           Arr2 rows \<Rightarrow> Inr (d\<lparr>x_arr := Arr2 (nrm rows)\<rparr>)
         | Arr3 items \<Rightarrow>
             bindE (make_flat items) (\<lambda>(flat, slices).
               Inr (d\<lparr>x_arr := ListOfArrays (make_ragged (nrm flat) slices)\<rparr>))
         | Ragged items \<Rightarrow>
             bindE (make_flat items) (\<lambda>(flat, slices).
               Inr (d\<lparr>x_arr := ListOfArrays (make_ragged (nrm flat) slices)\<rparr>))
         | ListOfArrays items \<Rightarrow> Inl (AttributeError ''dtype''))
      else if scheme = ''speaker'' then
        bindE (normalise_speakers nrm (speaker_indices d) (speaker_counts d)
                 [0..<length (speakers d)] (x_arr d))
          (\<lambda>xa. Inr (d\<lparr>x_arr := xa\<rparr>))
      else Inr d)"

section \<open>LabelledDataset\<close>

record 'a labelled_dataset = "'a dataset" +
  classes :: "string list"
  y_arr :: "nat list"
  class_counts :: "nat list option"

text \<open>
  \<open>LabelledDataset.__init__\<close>. Iterating over \<open>backend.labels\<close> when it is \<open>None\<close> raises
  \<open>TypeError\<close>; \<open>class_to_int\<close> is \<open>classes.index\<close>; a container without instances fails
  in \<open>np.bincount\<close>.
\<close>

definition LabelledDataset_init ::
  "'a io \<Rightarrow> (string \<rightharpoonup> corpus_info) \<Rightarrow> string \<Rightarrow> error + 'a labelled_dataset" where
  "LabelledDataset_init io corpora_table path =
     bindE (Dataset_init io corpora_table path) (\<lambda>(b, d).
       case corpora_table (lower (corpus d)) of
         None \<Rightarrow> Inl KeyError
       | Some info \<Rightarrow>
           (let cls = map snd (info_emotion_map info)
            in (case backend_labels b of
                  None \<Rightarrow> Inl TypeError
                | Some lbls \<Rightarrow>
                    bindE (mapE (index cls) lbls) (\<lambda>ys.
                    bindE (bincount_labels ys) (\<lambda>counts.
                      Inr (dataset.extend d
                             (labelled_dataset.fields cls ys (Some counts))))))))"

text \<open>\<open>map.get(k, k)\<close> for a dictionary \<open>map\<close>.\<close>

definition get_or_self :: "(string \<rightharpoonup> string) \<Rightarrow> string \<Rightarrow> string" where
  "get_or_self m k = (case m k of None \<Rightarrow> k | Some v \<Rightarrow> v)"

text \<open>
  \<open>map_classes\<close>. \<open>arr_map[self.y]\<close> raises \<open>IndexError\<close> for a label out of range, and
  also for the empty label vector, which is a float64 array and no index array.
\<close>

definition map_classes ::
  "(string \<rightharpoonup> string) \<Rightarrow> ('a, 'z) labelled_dataset_scheme
     \<Rightarrow> error + ('a, 'z) labelled_dataset_scheme" where
  "map_classes m d =
     (let new_classes = sort (remdups (map (get_or_self m) (classes d)))
      in bindE (mapE (\<lambda>k. index new_classes (get_or_self m k)) (classes d)) (\<lambda>arr_map.
         bindE (if y_arr d = [] then Inl IndexError else getitems arr_map (y_arr d)) (\<lambda>ys.
         bindE (bincount_labels ys) (\<lambda>counts.
           Inr (d\<lparr>y_arr := ys, class_counts := Some counts, classes := new_classes\<rparr>)))))"

text \<open>
  \<open>remove_classes\<close>; \<open>keep\<close> is any collection, given by the list of its elements. When
  no instance is kept the last statement, \<open>np.bincount(self.y)\<close>, raises.
\<close>

definition remove_classes ::
  "string list \<Rightarrow> ('a, 'z) labelled_dataset_scheme
     \<Rightarrow> error + ('a, 'z) labelled_dataset_scheme" where
  "remove_classes keep_arg d =
     (let keep = set keep_arg
      in bindE (getitems (classes d) (y_arr d)) (\<lambda>str_labels.
           let keep_idx = filter (\<lambda>i. str_labels ! i \<in> keep) [0..<length str_labels]
           in bindE (arr_getitems (x_arr d) keep_idx) (\<lambda>xa.
              bindE (getitems (names d) keep_idx) (\<lambda>nms.
              bindE (getitems (speaker_indices d) keep_idx) (\<lambda>sidx.
                let counts = np_bincount sidx (length (speakers d));
                    cls = sort (remdups (filter (\<lambda>c. c \<in> keep) (classes d)));
                    str_labels' = filter (\<lambda>l. l \<in> keep) str_labels
                in bindE (mapE (index cls) str_labels') (\<lambda>ys.
                   bindE (bincount_labels ys) (\<lambda>ccounts.
                     Inr (d\<lparr>x_arr := xa, names := nms, speaker_indices := sidx,
                            speaker_counts := Some counts, speaker_group_indices := sidx,
                            classes := cls, y_arr := ys,
                            class_counts := Some ccounts\<rparr>))))))))"

section \<open>CombinedDataset\<close>

record 'a combined_dataset = "'a labelled_dataset" +
  corpora :: "string list"
  corpus_indices :: "nat list"

text \<open>
  The keyword argument \<open>labels\<close>: \<open>None\<close>, a list (the annotated type), or a set, given by
  the list of its elements. Only a set supports \<open>all_labels - labels\<close>.
\<close>

datatype label_filter = PyNone | PyList "string list" | PySet "string list"

fun truthy :: "label_filter \<Rightarrow> bool" where
  "truthy PyNone = False"
| "truthy (PyList l) = (l \<noteq> [])"
| "truthy (PySet l) = (l \<noteq> [])"

text \<open>
  The loop over the sources that namespaces and offsets the speaker data. The state is
  \<open>(self._speakers, speaker_indices, self._speaker_groups, speaker_group_indices)\<close>, the
  second and fourth being the lists of per-source vectors.
\<close>

definition prefixed :: "string \<Rightarrow> string \<Rightarrow> string" where
  "prefixed c s = c @ ''_'' @ s"

fun combine_speakers ::
  "('a, 'z) labelled_dataset_scheme list
     \<Rightarrow> string list \<times> nat list list \<times> string set list \<times> nat list list
     \<Rightarrow> string list \<times> nat list list \<times> string set list \<times> nat list list" where
  "combine_speakers [] st = st"
| "combine_speakers (d # ds) (sps, sidx, groups, gidx) =
     combine_speakers ds
       (sps @ map (prefixed (corpus d)) (speakers d),
        sidx @ [map (\<lambda>i. i + length sps) (speaker_indices d)],
        groups @ map (\<lambda>g. prefixed (corpus d) ` g) (speaker_groups d),
        gidx @ [map (\<lambda>i. i + length groups) (speaker_group_indices d)])"

text \<open>
  The block under \<open>if labels:\<close>. It re-slices \<open>self._x\<close> and \<open>self._speaker_indices\<close>,
  replaces the class list and filters the label names; without a (non-empty) filter the
  four values pass through.
\<close>

definition filter_labels ::
  "label_filter \<Rightarrow> string list \<Rightarrow> 'a arr \<Rightarrow> nat list \<Rightarrow> string list \<Rightarrow> string list
     \<Rightarrow> error + ('a arr \<times> nat list \<times> string list \<times> string list)" where
  "filter_labels labels all_labels xa sidx cls str_labels =
     (if truthy labels then
        (case labels of
           PySet l \<Rightarrow>
             (let drop_labels = filter (\<lambda>c. c \<notin> set l) all_labels;
                  keep_idx = filter (\<lambda>i. str_labels ! i \<notin> set drop_labels)
                               [0..<length str_labels]
              in bindE (arr_getitems xa keep_idx) (\<lambda>xa'.
                 bindE (getitems sidx keep_idx) (\<lambda>sidx'.
                   Inr (xa', sidx', sort (remdups l),
                        filter (\<lambda>x. x \<notin> set drop_labels) str_labels))))
         | _ \<Rightarrow> Inl TypeError)
      else Inr (xa, sidx, cls, str_labels))"

definition CombinedDataset_init ::
  "('a, 'z) labelled_dataset_scheme list \<Rightarrow> label_filter \<Rightarrow> error + 'a combined_dataset" where
  "CombinedDataset_init datasets labels =
     (let crps = map corpus datasets;
          sizes = map (\<lambda>d. arr_len (x_arr d)) datasets;
          cidx = np_repeat_arange sizes;
          nms = concat (map (\<lambda>d. map (prefixed (corpus d)) (names d)) datasets)
      in bindE (getitem datasets 0) (\<lambda>d0.
         case combine_speakers datasets ([], [], [], []) of (sps, sidx_parts, groups, gidx_parts) \<Rightarrow>
         bindE (np_concatenate sidx_parts) (\<lambda>sidx.
         bindE (np_concatenate gidx_parts) (\<lambda>gidx.
         bindE (np_concatenate_arr (map x_arr datasets)) (\<lambda>xa.
           let all_labels = concat (map classes datasets);
               cls = sort (remdups all_labels)
           in bindE (mapE (\<lambda>d. getitems (classes d) (y_arr d)) datasets) (\<lambda>parts.
              bindE (filter_labels labels all_labels xa sidx cls (concat parts))
                (\<lambda>(xa', sidx', cls', str_labels').
                   bindE (mapE (index cls') str_labels') (\<lambda>ys.
                     Inr \<lparr>corpus = ''combined'', names = nms, features = features d0,
                          x_arr = xa', speakers = sps, speaker_indices = sidx',
                          speaker_counts = None, male_speakers = None,
                          female_speakers = None, male_indices = None,
                          female_indices = None, speaker_groups = groups,
                          speaker_group_indices = sidx',
                          classes = cls', y_arr = ys, class_counts = None,
                          corpora = crps, corpus_indices = cidx\<rparr>))))))))"

text \<open>The property \<open>corpus_counts\<close>: \<open>np.bincount(self.corpus_indices)\<close>, computed on first use.\<close>

definition corpus_counts :: "('a, 'z) combined_dataset_scheme \<Rightarrow> nat list" where
  "corpus_counts cd = np_bincount (corpus_indices cd) 0"

definition corpus_to_idx :: "('a, 'z) combined_dataset_scheme \<Rightarrow> string \<Rightarrow> error + nat" where
  "corpus_to_idx cd c = index (corpora cd) c"

definition get_corpus_split ::
  "('a, 'z) combined_dataset_scheme \<Rightarrow> string \<Rightarrow> error + (nat list \<times> nat list)" where
  "get_corpus_split cd c =
     bindE (corpus_to_idx cd c) (\<lambda>k.
       let cond = map (\<lambda>i. i = k) (corpus_indices cd);
           corpus_idx = np_nonzero cond;
           other_idx = np_nonzero (map Not cond)
       in Inr (corpus_idx, other_idx))"

text \<open>The loop of the \<open>corpus\<close> scheme over \<open>range(len(self.corpora))\<close>.\<close>

fun normalise_corpora ::
  "('a list list \<Rightarrow> 'a list list) \<Rightarrow> nat list \<Rightarrow> nat list \<Rightarrow> 'a arr \<Rightarrow> error + 'a arr" where
  "normalise_corpora nrm cidx [] xa = Inr xa"
| "normalise_corpora nrm cidx (c # cs) xa =
     (let idx = np_nonzero (map (\<lambda>i. i = c) cidx)
      in bindE (normalise_subset nrm xa idx) (normalise_corpora nrm cidx cs))"

definition CombinedDataset_normalise ::
  "('a list list \<Rightarrow> 'a list list) \<Rightarrow> string \<Rightarrow> ('a, 'z) combined_dataset_scheme
     \<Rightarrow> error + ('a, 'z) combined_dataset_scheme" where
  "CombinedDataset_normalise nrm scheme cd =
     (if scheme = ''corpus'' then
        bindE (normalise_corpora nrm (corpus_indices cd) [0..<length (corpora cd)] (x_arr cd))
          (\<lambda>xa. Inr (cd\<lparr>x_arr := xa\<rparr>))
      else normalise nrm scheme cd)"

section \<open>Example datasets\<close>

text \<open>
  The two corpora of the merge example: corpus A with the classes happy and sad and two
  instances, corpus B with the classes sad and angry and three instances. Corpus A has
  three speakers in two speaker groups, the second speaker without an instance.
\<close>

definition example_A :: "int labelled_dataset" where
  "example_A =
     \<lparr>corpus = ''A'', names = [''a1'', ''a2''], features = [''f1''],
      x_arr = Arr2 [[1], [2]], speakers = [''s1'', ''s2'', ''s3''], speaker_indices = [0, 2],
      speaker_counts = Some [1, 0, 1], male_speakers = Some [], female_speakers = Some [],
      male_indices = None, female_indices = None,
      speaker_groups = [{''s1'', ''s2''}, {''s3''}], speaker_group_indices = [0, 1],
      classes = [''happy'', ''sad''], y_arr = [0, 1], class_counts = Some [1, 1]\<rparr>"

definition example_B :: "int labelled_dataset" where
  "example_B =
     \<lparr>corpus = ''B'', names = [''b1'', ''b2'', ''b3''], features = [''f1''],
      x_arr = Arr2 [[3], [4], [5]], speakers = [''t1''], speaker_indices = [0, 0, 0],
      speaker_counts = Some [3], male_speakers = Some [], female_speakers = Some [],
      male_indices = None, female_indices = None,
      speaker_groups = [{''t1''}], speaker_group_indices = [0, 0, 0],
      classes = [''sad'', ''angry''], y_arr = [0, 1, 1], class_counts = Some [1, 2]\<rparr>"

text \<open>The merge of the two example corpora, without a label filter.\<close>

definition example_AB :: "int combined_dataset" where
  "example_AB =
     \<lparr>corpus = ''combined'', names = [''A_a1'', ''A_a2'', ''B_b1'', ''B_b2'', ''B_b3''],
      features = [''f1''], x_arr = Arr2 [[1], [2], [3], [4], [5]],
      speakers = [''A_s1'', ''A_s2'', ''A_s3'', ''B_t1''], speaker_indices = [0, 2, 3, 3, 3],
      speaker_counts = None, male_speakers = None, female_speakers = None,
      male_indices = None, female_indices = None,
      speaker_groups = [{''A_s1'', ''A_s2''}, {''A_s3''}, {''B_t1''}],
      speaker_group_indices = [0, 2, 3, 3, 3],
      classes = [''angry'', ''happy'', ''sad''], y_arr = [1, 2, 2, 0, 0], class_counts = None,
      corpora = [''A'', ''B''], corpus_indices = [0, 0, 1, 1, 1]\<rparr>"

text \<open>
  A corpus without instances. No constructor returns it: \<open>LabelledDataset.__init__\<close> fails
  on a container without instances.
\<close>

definition example_E :: "int labelled_dataset" where
  "example_E =
     \<lparr>corpus = ''E'', names = [], features = [''f1''],
      x_arr = Arr2 [], speakers = [''u1''], speaker_indices = [],
      speaker_counts = Some [0], male_speakers = Some [], female_speakers = Some [],
      male_indices = None, female_indices = None,
      speaker_groups = [{''u1''}], speaker_group_indices = [],
      classes = [''sad''], y_arr = [], class_counts = Some []\<rparr>"

text \<open>
  A corpora table with the single corpus \<open>demo\<close>, a netCDF container of that corpus whose
  two instances are both labelled happy, and decoders that return it.
\<close>

definition example_info :: corpus_info where
  "example_info =
     \<lparr>info_speakers = [''s1'', ''s2''], info_male_speakers = [], info_female_speakers = [],
      info_speaker_groups = [{''s1''}, {''s2''}],
      info_emotion_map = [(''h'', ''happy''), (''s'', ''sad'')],
      info_get_speaker = take 2\<rparr>"

definition example_table :: "string \<rightharpoonup> corpus_info" where
  "example_table = [''demo'' \<mapsto> example_info]"

definition example_netcdf :: "int netcdf" where
  "example_netcdf =
     \<lparr>nc_corpus = Some ''Demo'', nc_filename = [''s1_a.wav'', ''s2_b.wav''],
      nc_feature_dim_size = 1, nc_features = [[1], [2]], nc_slices = [1, 1],
      nc_label_nominal = Some [''happy'', ''happy'']\<rparr>"

definition example_io :: "int io" where
  "example_io =
     \<lparr>open_netcdf = (\<lambda>p. Inr example_netcdf),
      raw_audio_backend = (\<lambda>p. Inr \<lparr>backend_corpus = ''Clips'', backend_names = [],
         backend_features = Ragged [], backend_labels = None,
         backend_feature_names = [''pcm'']\<rparr>),
      arff_backend = (\<lambda>p. Inl TypeError)\<rparr>"

section \<open>Properties of the primitives\<close>

lemma bindE_Inr_iff: "bindE m f = Inr r \<longleftrightarrow> (\<exists>v. m = Inr v \<and> f v = Inr r)"
  by (cases m) (simp_all add: bindE_def)

lemma bindE_Inr [simp]: "bindE (Inr v) f = f v"
  by (simp add: bindE_def)

lemma bindE_Inl [simp]: "bindE (Inl e) f = Inl e"
  by (simp add: bindE_def)

lemma mapE_Inr_D: "mapE f as = Inr bs \<Longrightarrow> list_all2 (\<lambda>a b. f a = Inr b) as bs"
  by (induction as arbitrary: bs) (auto split: sum.splits)

lemma mapE_total:
  "(\<forall>a\<in>set as. \<exists>b. f a = Inr b) \<Longrightarrow> \<exists>bs. mapE f as = Inr bs"
  by (induction as) (auto split: sum.splits)

lemma mapE_length: "mapE f as = Inr bs \<Longrightarrow> length bs = length as"
  by (drule mapE_Inr_D) (simp add: list_all2_lengthD)

lemma mapE_nth: "mapE f as = Inr bs \<Longrightarrow> i < length as \<Longrightarrow> f (as ! i) = Inr (bs ! i)"
  by (drule mapE_Inr_D) (erule list_all2_nthD)

lemma mapE_Inl: "mapE f as = Inl e \<Longrightarrow> \<exists>a\<in>set as. f a = Inl e"
  by (induction as) (auto split: sum.splits)

lemma mapE_fails: "a \<in> set as \<Longrightarrow> f a = Inl e \<Longrightarrow> \<exists>e'. mapE f as = Inl e'"
  by (induction as) (auto split: sum.splits)

lemma mapE_eq_map:
  "mapE f as = Inr bs \<Longrightarrow> (\<And>a b. f a = Inr b \<Longrightarrow> b = g a) \<Longrightarrow> bs = map g as"
proof (induction as arbitrary: bs)
  case Nil
  then show ?case by simp
next
  case (Cons a as)
  from Cons.prems(1) obtain b bs' where
    b: "f a = Inr b" and bs': "mapE f as = Inr bs'" and e: "bs = b # bs'"
    by (auto split: sum.splits)
  have "bs' = map g as" using Cons.IH [OF bs'] Cons.prems(2) by blast
  moreover have "b = g a" using Cons.prems(2) [OF b] .
  ultimately show ?case using e by simp
qed

lemma index_from_Inr:
  "index_from k xs v = Inr j \<Longrightarrow> k \<le> j \<and> j - k < length xs \<and> xs ! (j - k) = v"
proof (induction xs arbitrary: k)
  case Nil
  then show ?case by simp
next
  case (Cons a as)
  show ?case
  proof (cases "a = v")
    case True
    with Cons.prems show ?thesis by simp
  next
    case False
    with Cons.prems have "index_from (Suc k) as v = Inr j" by simp
    from Cons.IH [OF this] have "Suc k \<le> j" "j - Suc k < length as" "as ! (j - Suc k) = v"
      by simp_all
    moreover from \<open>Suc k \<le> j\<close> have "j - k = Suc (j - Suc k)" by simp
    ultimately show ?thesis by simp
  qed
qed

lemma index_from_total: "v \<in> set xs \<Longrightarrow> \<exists>j. index_from k xs v = Inr j"
  by (induction xs arbitrary: k) auto

lemma index_Inr: "index xs v = Inr j \<Longrightarrow> j < length xs \<and> xs ! j = v"
  using index_from_Inr [of 0 xs v j] by (simp add: index_def)

lemma index_total: "v \<in> set xs \<Longrightarrow> \<exists>j. index xs v = Inr j"
  by (simp add: index_def index_from_total)

lemma index_from_Inl: "index_from k xs v = Inl e \<Longrightarrow> e = ValueError \<and> v \<notin> set xs"
  by (induction xs arbitrary: k) (auto split: if_splits)

lemma index_from_missing: "v \<notin> set xs \<Longrightarrow> index_from k xs v = Inl ValueError"
  by (induction xs arbitrary: k) auto

lemma index_missing: "v \<notin> set xs \<Longrightarrow> index xs v = Inl ValueError"
  by (simp add: index_def index_from_missing)

lemma mapE_index_missing:
  assumes "l \<in> set lbls" "l \<notin> set cls"
  shows "mapE (index cls) lbls = Inl ValueError"
proof -
  obtain e where e: "mapE (index cls) lbls = Inl e"
    using mapE_fails [of l lbls "index cls" ValueError] assms index_missing [of l cls] by blast
  then obtain a where "index cls a = Inl e"
    using mapE_Inl [of "index cls" lbls e] by blast
  then have "index_from 0 cls a = Inl e" by (simp add: index_def)
  then have "e = ValueError" using index_from_Inl [of 0 cls a e] by simp
  with e show ?thesis by simp
qed

lemma mapE_index_range:
  assumes "mapE (index cls) lbls = Inr ys"
  shows "\<forall>i\<in>set ys. i < length cls"
proof
  fix i assume "i \<in> set ys"
  then obtain k where k: "k < length ys" "ys ! k = i" by (auto simp: in_set_conv_nth)
  then have "k < length lbls" using mapE_length [OF assms] by simp
  then have "index cls (lbls ! k) = Inr (ys ! k)" using mapE_nth [OF assms] by simp
  then have "ys ! k < length cls \<and> cls ! (ys ! k) = lbls ! k" by (rule index_Inr)
  then show "i < length cls" using k by simp
qed

lemma getitems_length: "getitems xs idx = Inr r \<Longrightarrow> length r = length idx"
  by (simp add: getitems_def mapE_length)

lemma getitems_nth:
  "getitems xs idx = Inr r \<Longrightarrow> i < length idx \<Longrightarrow> idx ! i < length xs \<and> r ! i = xs ! (idx ! i)"
  using mapE_nth [of "getitem xs" idx r i]
  by (auto simp: getitems_def getitem_def split: if_splits)

lemma getitems_total: "(\<forall>i\<in>set idx. i < length xs) \<Longrightarrow> \<exists>r. getitems xs idx = Inr r"
  unfolding getitems_def by (rule mapE_total) (simp add: getitem_def)

lemma getitems_eq: "getitems xs idx = Inr r \<Longrightarrow> r = map (nth xs) idx"
proof (rule nth_equalityI)
  assume g: "getitems xs idx = Inr r"
  show "length r = length (map (nth xs) idx)"
    using getitems_length [OF g] by simp
  fix i assume "i < length r"
  then have "i < length idx" using getitems_length [OF g] by simp
  then show "r ! i = map (nth xs) idx ! i"
    using getitems_nth [OF g] by simp
qed

lemma filter_indices:
  "map (nth xs) (filter (\<lambda>i. P (xs ! i)) [0..<length xs]) = filter P xs"
proof (induction xs rule: rev_induct)
  case Nil
  then show ?case by simp
next
  case (snoc x xs)
  have a: "filter (\<lambda>i. P ((xs @ [x]) ! i)) [0..<length xs]
           = filter (\<lambda>i. P (xs ! i)) [0..<length xs]"
    by (rule filter_cong) (auto simp: nth_append)
  have b: "map (nth (xs @ [x])) (filter (\<lambda>i. P (xs ! i)) [0..<length xs])
           = map (nth xs) (filter (\<lambda>i. P (xs ! i)) [0..<length xs])"
    by (rule map_cong) (auto simp: nth_append)
  show ?case using snoc a b by simp
qed

lemma length_filter_indices:
  "length (filter (\<lambda>i. P (xs ! i)) [0..<length xs]) = length (filter P xs)"
  using filter_indices [of xs P] by (metis length_map)

lemma arr_getitems_len: "arr_getitems xa idx = Inr xa' \<Longrightarrow> arr_len xa' = length idx"
  by (cases xa) (auto simp: bindE_Inr_iff dest: getitems_length)

lemma arr_getitems_total:
  "(\<forall>i\<in>set idx. i < arr_len xa) \<Longrightarrow> (\<forall>items. xa \<noteq> ListOfArrays items)
     \<Longrightarrow> \<exists>xa'. arr_getitems xa idx = Inr xa'"
  by (cases xa) (simp_all add: bindE_Inr_iff getitems_total)

lemma set_np_nonzero: "set (np_nonzero cond) = {i. i < length cond \<and> cond ! i}"
  by (auto simp: np_nonzero_def)

lemma sorted_np_nonzero: "sorted (np_nonzero cond) \<and> distinct (np_nonzero cond)"
  by (simp add: np_nonzero_def sorted_wrt_filter)

lemma length_np_repeat_arange: "length (np_repeat_arange sizes) = sum_list sizes"
proof -
  have "map (\<lambda>j. sizes ! j) [0..<length sizes] = sizes"
    by (rule map_nth)
  then show ?thesis
    by (simp add: np_repeat_arange_def length_concat comp_def)
qed

lemma count_list_concat:
  "count_list (concat xss) y = sum_list (map (\<lambda>xs. count_list xs y) xss)"
  by (induction xss) simp_all

lemma count_list_replicate: "count_list (replicate m k) j = (if k = j then m else 0)"
  by (induction m) auto

lemma sum_list_single:
  "sum_list (map (\<lambda>k. if k = j then f k else 0) [0..<n]) = (if j < n then f j else (0::nat))"
  by (induction n) auto

lemma count_list_np_repeat_arange:
  "count_list (np_repeat_arange sizes) j = (if j < length sizes then sizes ! j else 0)"
  by (simp add: np_repeat_arange_def count_list_concat comp_def count_list_replicate
      sum_list_single)

lemma set_np_repeat_arange:
  "set (np_repeat_arange sizes) = {j. j < length sizes \<and> 0 < sizes ! j}"
  by (auto simp: np_repeat_arange_def)

lemma fold_max_upper:
  "a \<le> (m::nat) \<Longrightarrow> (\<forall>x\<in>set v. x \<le> m) \<Longrightarrow> fold max v a \<le> m"
  by (induction v arbitrary: a) simp_all

lemma fold_max_lower: "(a::nat) \<le> fold max v a"
proof (induction v arbitrary: a)
  case Nil
  then show ?case by simp
next
  case (Cons x v)
  have "a \<le> max x a" by simp
  also have "\<dots> \<le> fold max v (max x a)" by (rule Cons.IH)
  finally show ?case by simp
qed

lemma fold_max_member: "x \<in> set v \<Longrightarrow> (x::nat) \<le> fold max v a"
proof (induction v arbitrary: a)
  case Nil
  then show ?case by simp
next
  case (Cons y v)
  show ?case
  proof (cases "x = y")
    case True
    have "x \<le> max y a" using True by simp
    also have "\<dots> \<le> fold max v (max y a)" by (rule fold_max_lower)
    finally show ?thesis by simp
  next
    case False
    then have "x \<in> set v" using Cons.prems by simp
    then show ?thesis using Cons.IH by simp
  qed
qed

lemma length_np_bincount:
  "length (np_bincount v m) = max m (if v = [] then 0 else Suc (fold max v 0))"
  by (simp add: np_bincount_def)

lemma nth_np_bincount:
  "k < length (np_bincount v m) \<Longrightarrow> np_bincount v m ! k = count_list v k"
  by (simp add: np_bincount_def)

section \<open>Properties of the array reshaper\<close>

lemma split_from_concat:
  "data \<noteq> [] \<Longrightarrow> length pre = st \<Longrightarrow>
   split_from st (pre @ concat data) (butlast (cumsum_from st (map length data))) = data"
proof (induction data arbitrary: pre st)
  case Nil
  then show ?case by simp
next
  case (Cons d ds)
  show ?case
  proof (cases ds)
    case Nil
    with Cons.prems show ?thesis by (simp add: py_slice_def)
  next
    case (Cons d' ds')
    have ne: "cumsum_from (st + length d) (map length ds) \<noteq> []"
      using Cons by simp
    have "split_from (st + length d) ((pre @ d) @ concat ds)
            (butlast (cumsum_from (st + length d) (map length ds))) = ds"
      using Cons.IH [of "pre @ d" "st + length d"] Cons Cons.prems by simp
    then show ?thesis
      using ne Cons.prems by (simp add: py_slice_def)
  qed
qed

lemma split_from_lengths:
  "slices \<noteq> [] \<Longrightarrow> st + sum_list slices = length ary \<Longrightarrow>
   map length (split_from st ary (butlast (cumsum_from st slices))) = slices
   \<and> concat (split_from st ary (butlast (cumsum_from st slices))) = drop st ary"
proof (induction slices arbitrary: st)
  case Nil
  then show ?case by simp
next
  case (Cons s ss)
  show ?case
  proof (cases ss)
    case Nil
    with Cons.prems show ?thesis by (simp add: py_slice_def)
  next
    case (Cons s' ss')
    have ne: "cumsum_from (st + s) ss \<noteq> []" using Cons by simp
    have ih: "map length (split_from (st + s) ary (butlast (cumsum_from (st + s) ss))) = ss
       \<and> concat (split_from (st + s) ary (butlast (cumsum_from (st + s) ss))) = drop (st + s) ary"
      using Cons.IH [of "st + s"] Cons Cons.prems by (simp add: add.assoc)
    have len: "st + s \<le> length ary" using Cons.prems by simp
    have "drop st ary = drop st (take (st + s) ary @ drop (st + s) ary)" by simp
    also have "\<dots> = drop st (take (st + s) ary) @ drop (st + s) ary"
      using len by (simp del: append_take_drop_id)
    finally have "drop st (take (st + s) ary) @ drop (st + s) ary = drop st ary" by simp
    then show ?thesis
      using ne ih Cons.prems by (simp add: py_slice_def)
  qed
qed

lemma blocks_props:
  "length xs = n * t \<Longrightarrow>
   length (blocks n t xs) = n \<and> (\<forall>m\<in>set (blocks n t xs). length m = t \<and> set m \<subseteq> set xs)
   \<and> concat (blocks n t xs) = xs"
proof (induction n arbitrary: xs)
  case 0
  then show ?case by simp
next
  case (Suc n)
  have "length (drop t xs) = n * t" using Suc.prems by simp
  from Suc.IH [OF this] show ?case
    using Suc.prems by (auto dest: in_set_takeD in_set_dropD)
qed

lemma sum_list_all_eq: "(\<forall>s\<in>set ss. s = L) \<Longrightarrow> sum_list ss = length ss * L"
  by (induction ss) auto

lemma length_le_sum_list: "(\<forall>s\<in>set ss. 1 \<le> s) \<Longrightarrow> length ss \<le> sum_list (ss :: nat list)"
  by (induction ss) auto

lemma sum_list_eq_length_all_one:
  "(\<forall>s\<in>set ss. 1 \<le> s) \<Longrightarrow> sum_list ss = length ss \<Longrightarrow> (\<forall>s\<in>set ss. s = (1::nat))"
proof (induction ss)
  case Nil
  then show ?case by simp
next
  case (Cons a as)
  have "length as \<le> sum_list as" using Cons.prems(1) by (simp add: length_le_sum_list)
  moreover have "1 \<le> a" using Cons.prems(1) by simp
  ultimately have "a = 1" "sum_list as = length as" using Cons.prems(2) by auto
  then show ?case using Cons by simp
qed

lemma reshape_data_array_same_length:
  "length x = length slices \<Longrightarrow> reshape_data_array x slices = Inr (Arr2 x)"
  by (simp add: reshape_data_array_def)

lemma reshape_data_array_equal:
  assumes "length x \<noteq> length slices" "slices = s0 # ss" "list_all (\<lambda>s. s = s0) slices"
    "length x = length slices * t" "x \<noteq> []"
  shows "reshape_data_array x slices = Inr (Arr3 (blocks (length slices) t x))"
proof -
  obtain x0 xs where xc: "x = x0 # xs" using assms(5) by (cases x) auto
  have "length x mod length slices = 0" using assms(4) by simp
  moreover have "length slices \<noteq> 0" using assms(2) by simp
  then have "length x div length slices = t" using assms(4) by simp
  moreover have "np_reshape3 x (length slices) t = Inr (Arr3 (blocks (length slices) t x))"
    using assms(4) by (simp add: np_reshape3_def)
  ultimately show ?thesis
    unfolding reshape_data_array_def using assms(1,3) by (simp add: assms(2) xc)
qed

lemma reshape_data_array_unequal:
  assumes "length x \<noteq> length slices" "slices = s0 # ss" "\<not> list_all (\<lambda>s. s = s0) slices"
  shows "reshape_data_array x slices = Inr (Ragged (np_split x (butlast (cumsum slices))))"
  unfolding reshape_data_array_def using assms(1,3) by (simp add: assms(2))

text \<open>
  C2 (as amended). For a 2-D buffer \<open>x\<close> of \<open>F\<close> columns and a length vector \<open>slices\<close>
  with every entry at least 1 and \<open>sum(slices) = len(x)\<close>:
  if \<open>len(x) = len(slices)\<close> the buffer is returned unchanged;
  if \<open>len(x) \<noteq> len(slices)\<close> and every entry equals \<open>L\<close>, the result is a contiguous 3-D
  array of shape \<open>(len(slices), L, F)\<close> holding the rows of \<open>x\<close> in order;
  if the entries are not all equal, the result is a ragged array of \<open>len(slices)\<close>
  elements, the \<open>i\<close>-th with exactly \<open>slices[i]\<close> rows, again holding the rows of \<open>x\<close> in order.
\<close>

theorem reshape_data_array_cases:
  assumes pos: "\<forall>s\<in>set slices. 1 \<le> s"
    and total: "sum_list slices = length x"
    and cols: "\<forall>r\<in>set x. length r = F"
  shows "(length x = length slices \<longrightarrow> reshape_data_array x slices = Inr (Arr2 x))
    \<and> (length x \<noteq> length slices \<and> (\<forall>s\<in>set slices. s = L) \<longrightarrow>
         (\<exists>a. reshape_data_array x slices = Inr (Arr3 a)
              \<and> length a = length slices
              \<and> (\<forall>m\<in>set a. length m = L \<and> (\<forall>r\<in>set m. length r = F))
              \<and> concat a = x))
    \<and> (\<not> (\<exists>L. \<forall>s\<in>set slices. s = L) \<longrightarrow>
         (\<exists>a. reshape_data_array x slices = Inr (Ragged a)
              \<and> length a = length slices
              \<and> (\<forall>i<length slices. length (a ! i) = slices ! i)
              \<and> concat a = x))"
proof (intro conjI impI)
  assume "length x = length slices"
  then show "reshape_data_array x slices = Inr (Arr2 x)"
    by (rule reshape_data_array_same_length)
next
  assume h: "length x \<noteq> length slices \<and> (\<forall>s\<in>set slices. s = L)"
  have len: "length x = length slices * L"
    using total h sum_list_all_eq [of slices L] by simp
  have ne: "slices \<noteq> []" using h total by auto
  then obtain s0 ss where sl: "slices = s0 # ss" by (cases slices) auto
  have s0: "s0 = L" using h sl by simp
  have xne: "x \<noteq> []" using length_le_sum_list [OF pos] total ne by auto
  have alleq: "list_all (\<lambda>s. s = s0) slices" using h s0 by (simp add: list_all_iff)
  have r: "reshape_data_array x slices = Inr (Arr3 (blocks (length slices) L x))"
    using h sl alleq len xne by (intro reshape_data_array_equal) auto
  have b: "length (blocks (length slices) L x) = length slices"
    "\<forall>m\<in>set (blocks (length slices) L x). length m = L \<and> set m \<subseteq> set x"
    "concat (blocks (length slices) L x) = x"
    using blocks_props [OF len] by simp_all
  have "\<forall>m\<in>set (blocks (length slices) L x). length m = L \<and> (\<forall>r\<in>set m. length r = F)"
    using b(2) cols by blast
  then show "\<exists>a. reshape_data_array x slices = Inr (Arr3 a)
              \<and> length a = length slices
              \<and> (\<forall>m\<in>set a. length m = L \<and> (\<forall>r\<in>set m. length r = F))
              \<and> concat a = x"
    using r b(1,3) by blast
next
  assume h: "\<not> (\<exists>L. \<forall>s\<in>set slices. s = L)"
  then have ne: "slices \<noteq> []" by auto
  then obtain s0 ss where sl: "slices = s0 # ss" by (cases slices) auto
  have nall: "\<not> list_all (\<lambda>s. s = s0) slices" using h by (auto simp: list_all_iff)
  have nlen: "length x \<noteq> length slices"
    using sum_list_eq_length_all_one [OF pos] total h by metis
  have p: "map length (np_split x (butlast (cumsum slices))) = slices"
          "concat (np_split x (butlast (cumsum slices))) = x"
    using split_from_lengths [OF ne, of 0 x] total by (simp_all add: np_split_def cumsum_def)
  have r: "reshape_data_array x slices = Inr (Ragged (np_split x (butlast (cumsum slices))))"
    using nlen sl nall by (rule reshape_data_array_unequal)
  have "length (np_split x (butlast (cumsum slices))) = length slices"
    using p(1) by (metis length_map)
  moreover have "\<forall>i<length slices. length (np_split x (butlast (cumsum slices)) ! i) = slices ! i"
    using p(1) by (metis length_map nth_map)
  ultimately show "\<exists>a. reshape_data_array x slices = Inr (Ragged a)
              \<and> length a = length slices
              \<and> (\<forall>i<length slices. length (a ! i) = slices ! i)
              \<and> concat a = x"
    using r p(2) by blast
qed

theorem reshape_data_array_cases_witness:
  "list_all (\<lambda>s. 1 \<le> s) [2, 2 :: nat]
   \<and> sum_list [2, 2 :: nat] = length [[1], [2], [3], [4 :: int]]
   \<and> list_all (\<lambda>r. length r = 1) [[1], [2], [3], [4 :: int]]
   \<and> length [[1], [2], [3], [4 :: int]] \<noteq> length [2, 2 :: nat]
   \<and> list_all (\<lambda>s. s = 2) [2, 2 :: nat]
   \<and> (\<exists>a. reshape_data_array [[1], [2], [3], [4 :: int]] [2, 2] = Inr (Arr3 a)
          \<and> length a = length [2, 2 :: nat]
          \<and> (\<forall>m\<in>set a. length m = 2 \<and> (\<forall>r\<in>set m. length r = 1))
          \<and> concat a = [[1], [2], [3], [4]])"
  using reshape_data_array_cases [of "[2, 2]" "[[1], [2], [3], [4 :: int]]" 1 2]
  by simp

text \<open>
  C2 as stated fails when every entry is 1: the entries are all equal to \<open>L = 1\<close>, yet the
  first branch of the dispatch returns the 2-D buffer itself, not an array of shape
  \<open>(len(slices), 1, F)\<close>.
\<close>

theorem reshape_data_array_unit_slices_counterexample:
  "reshape_data_array [[1 :: int], [2]] [1, 1] = Inr (Arr2 [[1], [2]])
   \<and> reshape_data_array [[1 :: int], [2]] [1, 1] \<noteq> Inr (Arr3 [[[1]], [[2]]])"
  by (simp add: reshape_data_array_def)

text \<open>
  C3. For a non-empty sequence \<open>data\<close> of 2-D arrays, \<open>_make_flat\<close> returns a flat buffer
  and a length vector, and \<open>_make_ragged\<close> applied to them gives back \<open>data\<close>: the same
  number of elements, each equal to the original one. (An empty sequence makes
  \<open>np.concatenate\<close> raise, so non-emptiness is needed; the common column count and the
  one row per array are not.)
\<close>

theorem make_ragged_make_flat_roundtrip:
  assumes "data \<noteq> []"
  shows "\<exists>flat slices. make_flat data = Inr (flat, slices)
           \<and> slices = map length data
           \<and> make_ragged flat slices = data"
  using assms split_from_concat [of data "[]" 0]
  by (simp add: make_flat_def make_ragged_def np_concatenate_def bindE_def cumsum_def
      np_split_def)

theorem make_ragged_make_flat_roundtrip_witness:
  "[[[1, 2], [3, 4]], [[5, 6::int]]] \<noteq> []
   \<and> make_flat [[[1, 2], [3, 4]], [[5, 6::int]]] = Inr ([[1, 2], [3, 4], [5, 6]], [2, 1])
   \<and> make_ragged [[1, 2], [3, 4], [5, 6::int]] [2, 1] = [[[1, 2], [3, 4]], [[5, 6]]]"
  using make_ragged_make_flat_roundtrip [of "[[[1, 2], [3, 4]], [[5, 6::int]]]"]
  by (simp add: make_flat_def np_concatenate_def bindE_def make_ragged_def cumsum_def
      np_split_def py_slice_def)

section \<open>Properties of the constructors\<close>

lemma select_backend_unknown:
  assumes "suffix path \<noteq> ''.nc''" "suffix path \<noteq> ''.txt''"
    "suffixes path = s0 # rest" "s0 \<noteq> ''.arff''"
  shows "select_backend io path = Inl (NotImplementedError ''Unknown filetype.'')"
  using assms by (simp add: select_backend_def getitem_def)

lemma select_backend_no_suffix:
  assumes "suffix path \<noteq> ''.nc''" "suffix path \<noteq> ''.txt''" "suffixes path = []"
  shows "select_backend io path = Inl IndexError"
  using assms by (simp add: select_backend_def getitem_def)

lemma select_backend_no_corpus:
  assumes "suffix path = ''.nc''" "open_netcdf io path = Inr nc" "nc_corpus nc = None"
  shows "select_backend io path
         = Inl (AttributeError (''Dataset at '' @ path @ '' has no corpus metadata.''))"
  using assms by (simp add: select_backend_def NetCDFBackend_init_def)

text \<open>
  The failures of construction, each returning no dataset. The exception classes are
  Python's; they are the failures the specification calls \<open>UnsupportedFormatError\<close>,
  \<open>MissingMetadataError\<close>, \<open>UnknownCorpusError\<close> and \<open>UnknownClassError\<close>, in this order.
  \<^item> The path has a suffix, its last suffix is neither \<open>.nc\<close> nor \<open>.txt\<close> and its first
    suffix is not \<open>.arff\<close>: \<open>NotImplementedError('Unknown filetype.')\<close>.
  \<^item> The suffix is \<open>.nc\<close> and the container has no \<open>corpus\<close> attribute: \<open>AttributeError\<close>.
  \<^item> The backend's corpus name, lower-cased, is not a key of the corpora table:
    \<open>NotImplementedError\<close> with the message naming the corpus.
  \<^item> A label of the backend is not among the values of the corpus's \<open>emotion_map\<close>:
    the \<open>ValueError\<close> of \<open>list.index\<close>.
\<close>

lemma construction_failures:
  "(suffix path \<noteq> ''.nc'' \<and> suffix path \<noteq> ''.txt'' \<and> suffixes path = s0 # rest
      \<and> s0 \<noteq> ''.arff''
    \<longrightarrow> Dataset_init io tbl path = Inl (NotImplementedError ''Unknown filetype.'')
      \<and> LabelledDataset_init io tbl path = Inl (NotImplementedError ''Unknown filetype.''))
   \<and> (suffix path = ''.nc'' \<and> open_netcdf io path = Inr nc \<and> nc_corpus nc = None
    \<longrightarrow> Dataset_init io tbl path
          = Inl (AttributeError (''Dataset at '' @ path @ '' has no corpus metadata.''))
      \<and> LabelledDataset_init io tbl path
          = Inl (AttributeError (''Dataset at '' @ path @ '' has no corpus metadata.'')))
   \<and> (select_backend io path = Inr b \<and> tbl (lower (backend_corpus b)) = None
    \<longrightarrow> Dataset_init io tbl path
          = Inl (NotImplementedError
                   (''Corpus '' @ backend_corpus b @ '' hasn't been implemented yet.''))
      \<and> LabelledDataset_init io tbl path
          = Inl (NotImplementedError
                   (''Corpus '' @ backend_corpus b @ '' hasn't been implemented yet.'')))
   \<and> (Dataset_init io tbl path = Inr (b, d) \<and> tbl (lower (corpus d)) = Some info
      \<and> backend_labels b = Some lbls \<and> l \<in> set lbls
      \<and> l \<notin> set (map snd (info_emotion_map info))
    \<longrightarrow> LabelledDataset_init io tbl path = Inl ValueError)"
proof (intro conjI impI)
  assume "suffix path \<noteq> ''.nc'' \<and> suffix path \<noteq> ''.txt'' \<and> suffixes path = s0 # rest
      \<and> s0 \<noteq> ''.arff''"
  then have s: "select_backend io path = Inl (NotImplementedError ''Unknown filetype.'')"
    by (simp add: select_backend_unknown)
  show "Dataset_init io tbl path = Inl (NotImplementedError ''Unknown filetype.'')"
    by (simp add: Dataset_init_def s)
  then show "LabelledDataset_init io tbl path = Inl (NotImplementedError ''Unknown filetype.'')"
    by (simp add: LabelledDataset_init_def)
next
  assume "suffix path = ''.nc'' \<and> open_netcdf io path = Inr nc \<and> nc_corpus nc = None"
  then have s: "select_backend io path
         = Inl (AttributeError (''Dataset at '' @ path @ '' has no corpus metadata.''))"
    by (simp add: select_backend_no_corpus)
  show "Dataset_init io tbl path
          = Inl (AttributeError (''Dataset at '' @ path @ '' has no corpus metadata.''))"
    by (simp add: Dataset_init_def s)
  then show "LabelledDataset_init io tbl path
          = Inl (AttributeError (''Dataset at '' @ path @ '' has no corpus metadata.''))"
    by (simp add: LabelledDataset_init_def)
next
  assume h: "select_backend io path = Inr b \<and> tbl (lower (backend_corpus b)) = None"
  show "Dataset_init io tbl path
          = Inl (NotImplementedError
                   (''Corpus '' @ backend_corpus b @ '' hasn't been implemented yet.''))"
    using h by (simp add: Dataset_init_def)
  then show "LabelledDataset_init io tbl path
          = Inl (NotImplementedError
                   (''Corpus '' @ backend_corpus b @ '' hasn't been implemented yet.''))"
    by (simp add: LabelledDataset_init_def)
next
  assume h: "Dataset_init io tbl path = Inr (b, d) \<and> tbl (lower (corpus d)) = Some info
      \<and> backend_labels b = Some lbls \<and> l \<in> set lbls
      \<and> l \<notin> set (map snd (info_emotion_map info))"
  then have a: "l \<in> set lbls" and b: "l \<notin> set (map snd (info_emotion_map info))"
    by simp_all
  have m: "mapE (index (map snd (info_emotion_map info))) lbls = Inl ValueError"
    using a b by (rule mapE_index_missing)
  from h have i: "Dataset_init io tbl path = Inr (b, d)"
    and t: "tbl (lower (corpus d)) = Some info" and lb: "backend_labels b = Some lbls"
    by simp_all
  show "LabelledDataset_init io tbl path = Inl ValueError"
    unfolding LabelledDataset_init_def by (simp add: i t lb m)
qed

lemma construction_failures_example:
  "Dataset_init example_io example_table ''demo.csv''
     = Inl (NotImplementedError ''Unknown filetype.'')
   \<and> LabelledDataset_init example_io example_table ''demo.csv''
     = Inl (NotImplementedError ''Unknown filetype.'')
   \<and> LabelledDataset_init
       (example_io\<lparr>open_netcdf := \<lambda>p. Inr (example_netcdf\<lparr>nc_corpus := None\<rparr>)\<rparr>)
       example_table ''demo.nc''
     = Inl (AttributeError ''Dataset at demo.nc has no corpus metadata.'')
   \<and> LabelledDataset_init example_io example_table ''clips.txt''
     = Inl (NotImplementedError ''Corpus Clips hasn't been implemented yet.'')
   \<and> LabelledDataset_init
       (example_io\<lparr>open_netcdf :=
          \<lambda>p. Inr (example_netcdf\<lparr>nc_label_nominal := Some [''happy'', ''bored'']\<rparr>)\<rparr>)
       example_table ''demo.nc''
     = Inl ValueError"
proof -
  let ?io2 = "example_io\<lparr>open_netcdf := \<lambda>p. Inr (example_netcdf\<lparr>nc_corpus := None\<rparr>)\<rparr>"
  let ?io4 = "example_io\<lparr>open_netcdf :=
          \<lambda>p. Inr (example_netcdf\<lparr>nc_label_nominal := Some [''happy'', ''bored'']\<rparr>)\<rparr>"
  let ?b3 = "\<lparr>backend_corpus = ''Clips'', backend_names = [],
         backend_features = Ragged ([] :: int list list list), backend_labels = None,
         backend_feature_names = [''pcm'']\<rparr>"
  let ?b4 = "\<lparr>backend_corpus = ''Demo'', backend_names = [''s1_a'', ''s2_b''],
         backend_features = Arr2 [[1], [2 :: int]],
         backend_labels = Some [''happy'', ''bored''],
         backend_feature_names = [''feature_1'']\<rparr>"
  let ?d4 = "\<lparr>corpus = ''Demo'', names = [''s1_a'', ''s2_b''], features = [''feature_1''],
         x_arr = Arr2 [[1], [2 :: int]], speakers = [''s1'', ''s2''],
         speaker_indices = [0, 1], speaker_counts = Some [1, 1],
         male_speakers = Some [], female_speakers = Some [],
         male_indices = None, female_indices = None,
         speaker_groups = [{''s1''}, {''s2''}], speaker_group_indices = [0, 1]\<rparr>"
  have h1: "suffix ''demo.csv'' \<noteq> ''.nc'' \<and> suffix ''demo.csv'' \<noteq> ''.txt''
      \<and> suffixes ''demo.csv'' = ''.csv'' # [] \<and> ''.csv'' \<noteq> ''.arff''"
    by code_simp
  have h2: "suffix ''demo.nc'' = ''.nc''
      \<and> open_netcdf ?io2 ''demo.nc'' = Inr (example_netcdf\<lparr>nc_corpus := None\<rparr>)
      \<and> nc_corpus (example_netcdf\<lparr>nc_corpus := None\<rparr>) = None"
    by code_simp
  have h3: "select_backend example_io ''clips.txt'' = Inr ?b3
      \<and> example_table (lower (backend_corpus ?b3)) = None"
    by code_simp
  have lw: "lower ''Demo'' = ''demo''"
    by code_simp
  have h4a: "Dataset_init ?io4 example_table ''demo.nc'' = Inr (?b4, ?d4)
      \<and> backend_labels ?b4 = Some [''happy'', ''bored'']
      \<and> ''bored'' \<in> set [''happy'', ''bored'']
      \<and> ''bored'' \<notin> set (map snd (info_emotion_map example_info))"
    by code_simp
  have h4b: "example_table (lower (corpus ?d4)) = Some example_info"
    by (simp add: lw example_table_def)
  note h4 = h4a h4b
  have c1: "Dataset_init example_io example_table ''demo.csv''
          = Inl (NotImplementedError ''Unknown filetype.'')
      \<and> LabelledDataset_init example_io example_table ''demo.csv''
          = Inl (NotImplementedError ''Unknown filetype.'')"
    using construction_failures [where path = "''demo.csv''" and ?s0.0 = "''.csv''"
        and rest = "[]" and io = example_io and tbl = example_table] h1
    by blast
  have c2: "LabelledDataset_init ?io2 example_table ''demo.nc''
          = Inl (AttributeError (''Dataset at '' @ ''demo.nc'' @ '' has no corpus metadata.''))"
    using construction_failures [where path = "''demo.nc''" and io = ?io2
        and tbl = example_table and nc = "example_netcdf\<lparr>nc_corpus := None\<rparr>"] h2
    by blast
  have c3: "LabelledDataset_init example_io example_table ''clips.txt''
          = Inl (NotImplementedError
                   (''Corpus '' @ backend_corpus ?b3 @ '' hasn't been implemented yet.''))"
    using construction_failures [where path = "''clips.txt''" and io = example_io
        and tbl = example_table and b = ?b3] h3
    by blast
  have c4: "LabelledDataset_init ?io4 example_table ''demo.nc'' = Inl ValueError"
    using construction_failures [where path = "''demo.nc''" and io = ?io4
        and tbl = example_table and b = ?b4 and d = ?d4 and info = example_info
        and lbls = "[''happy'', ''bored'']" and l = "''bored''"] h4
    by blast
  show ?thesis using c1 c2 c3 c4 by simp
qed

text \<open>
  C8. Three of the four failures are as described (lemma \<open>construction_failures\<close>), and so
  is the first for a path that has a suffix. A path whose final component has no suffix
  (no dot, only a leading dot, or a trailing dot) is not rejected as an unknown file
  type: \<open>path.suffix\<close> is empty, \<open>path.suffixes\<close> is the empty list, and \<open>path.suffixes[0]\<close>
  in the third test raises \<open>IndexError\<close> before the \<open>else\<close> branch with
  \<open>NotImplementedError('Unknown filetype.')\<close> is reached.
\<close>

theorem construction_without_suffix:
  "suffix ''demo'' = [] \<and> suffixes ''demo'' = []
   \<and> Dataset_init example_io example_table ''demo'' = Inl IndexError
   \<and> LabelledDataset_init example_io example_table ''demo'' = Inl IndexError
   \<and> LabelledDataset_init example_io example_table ''corpus/.nc'' = Inl IndexError
   \<and> LabelledDataset_init example_io example_table ''corpus/demo.nc.'' = Inl IndexError
   \<and> LabelledDataset_init example_io example_table ''demo.csv''
       = Inl (NotImplementedError ''Unknown filetype.'')"
  by code_simp

lemma bincount_labels_Inr:
  "bincount_labels ys = Inr counts \<longleftrightarrow> ys \<noteq> [] \<and> counts = np_bincount ys 0"
  by (auto simp: bincount_labels_def)

lemma LabelledDataset_init_labels:
  assumes "LabelledDataset_init io tbl path = Inr d"
  shows "\<forall>i\<in>set (y_arr d). i < length (classes d)"
    and "class_counts d = Some (np_bincount (y_arr d) 0)"
    and "y_arr d \<noteq> []"
proof -
  from assms obtain b d0 where i: "Dataset_init io tbl path = Inr (b, d0)"
    unfolding LabelledDataset_init_def by (cases "Dataset_init io tbl path") auto
  from assms i obtain info where t: "tbl (lower (corpus d0)) = Some info"
    unfolding LabelledDataset_init_def by (cases "tbl (lower (corpus d0))") auto
  from assms i t obtain lbls where l: "backend_labels b = Some lbls"
    unfolding LabelledDataset_init_def by (cases "backend_labels b") auto
  from assms obtain ys where
    ys: "mapE (index (map snd (info_emotion_map info))) lbls = Inr ys" and
    ne: "ys \<noteq> []" and
    d: "d = dataset.extend d0
             (labelled_dataset.fields (map snd (info_emotion_map info)) ys
                (Some (np_bincount ys 0)))"
    unfolding LabelledDataset_init_def
    by (auto simp: i t l Let_def bindE_Inr_iff bincount_labels_Inr)
  have c: "classes d = map snd (info_emotion_map info)" and y: "y_arr d = ys"
    and cc: "class_counts d = Some (np_bincount ys 0)"
    by (simp_all add: d dataset.defs labelled_dataset.defs)
  show "\<forall>i\<in>set (y_arr d). i < length (classes d)"
    using mapE_index_range [OF ys] by (simp add: c y)
  show "class_counts d = Some (np_bincount (y_arr d) 0)"
    by (simp add: cc y)
  show "y_arr d \<noteq> []"
    using ne by (simp add: y)
qed

section \<open>Properties of LabelledDataset\<close>

text \<open>
  What \<open>map_classes\<close> does on a dataset with at least one label, all labels indexing the
  class list: it returns; the names, and so the number of instances, are unchanged; the
  new class list is sorted, free of duplicates and consists of the images of the old
  classes under the mapping extended by the identity; every new label indexes the new
  class list at the image of the instance's old class name; \<open>class_counts\<close> is the
  \<open>bincount\<close> of the new labels; with the empty mapping every instance keeps its class name.
\<close>

lemma map_classes_nonempty:
  assumes wf: "\<forall>i\<in>set (y_arr d). i < length (classes d)"
    and ne: "y_arr d \<noteq> []"
  shows "\<exists>d'. map_classes m d = Inr d'
     \<and> names d' = names d
     \<and> n_instances d' = n_instances d
     \<and> sorted (classes d') \<and> distinct (classes d')
     \<and> set (classes d') = (\<lambda>c. case m c of None \<Rightarrow> c | Some v \<Rightarrow> v) ` set (classes d)
     \<and> length (y_arr d') = length (y_arr d)
     \<and> (\<forall>i<length (y_arr d).
           y_arr d' ! i < length (classes d')
           \<and> classes d' ! (y_arr d' ! i)
               = (case m (classes d ! (y_arr d ! i)) of
                    None \<Rightarrow> classes d ! (y_arr d ! i)
                  | Some v \<Rightarrow> v))
     \<and> class_counts d' = Some (np_bincount (y_arr d') 0)
     \<and> (m = Map.empty \<longrightarrow>
          (\<forall>i<length (y_arr d). classes d' ! (y_arr d' ! i) = classes d ! (y_arr d ! i)))"
proof -
  let ?g = "\<lambda>c. case m c of None \<Rightarrow> c | Some v \<Rightarrow> v"
  have g: "get_or_self m = ?g" by (rule ext) (simp add: get_or_self_def)
  define nc where "nc = sort (remdups (map ?g (classes d)))"
  have setnc: "set nc = ?g ` set (classes d)" by (simp add: nc_def)
  have "\<forall>k\<in>set (classes d). \<exists>j. index nc (?g k) = Inr j"
  proof
    fix k assume "k \<in> set (classes d)"
    then have "?g k \<in> set nc" using setnc by blast
    then show "\<exists>j. index nc (?g k) = Inr j" by (rule index_total)
  qed
  then obtain arr_map where am: "mapE (\<lambda>k. index nc (?g k)) (classes d) = Inr arr_map"
    using mapE_total [of "classes d" "\<lambda>k. index nc (?g k)"] by blast
  have lam: "length arr_map = length (classes d)" using am by (rule mapE_length)
  have amn: "arr_map ! j < length nc \<and> nc ! (arr_map ! j) = ?g (classes d ! j)"
    if "j < length (classes d)" for j
  proof -
    have "index nc (?g (classes d ! j)) = Inr (arr_map ! j)"
      using mapE_nth [OF am that] .
    then show ?thesis by (rule index_Inr)
  qed
  obtain ys where ys: "getitems arr_map (y_arr d) = Inr ys"
    using getitems_total [of "y_arr d" arr_map] wf lam by auto
  have lys: "length ys = length (y_arr d)" using ys by (rule getitems_length)
  have ysne: "ys \<noteq> []" using lys ne by auto
  have ysn: "\<And>i. i < length (y_arr d) \<Longrightarrow> ys ! i = arr_map ! (y_arr d ! i)"
    using getitems_nth [OF ys] by blast
  let ?d' = "d\<lparr>y_arr := ys, class_counts := Some (np_bincount ys 0), classes := nc\<rparr>"
  have r: "map_classes m d = Inr ?d'"
    using am ys ne ysne
    by (simp add: map_classes_def Let_def g nc_def [symmetric] bincount_labels_def)
  have main: "\<forall>i<length (y_arr d).
           ys ! i < length nc \<and> nc ! (ys ! i) = ?g (classes d ! (y_arr d ! i))"
  proof (intro allI impI)
    fix i assume i: "i < length (y_arr d)"
    then have "y_arr d ! i < length (classes d)" using wf by simp
    from amn [OF this] ysn [OF i]
    show "ys ! i < length nc \<and> nc ! (ys ! i) = ?g (classes d ! (y_arr d ! i))"
      by simp
  qed
  have empty: "m = Map.empty \<longrightarrow>
          (\<forall>i<length (y_arr d). nc ! (ys ! i) = classes d ! (y_arr d ! i))"
    using main by simp
  have "sorted nc" "distinct nc" by (simp_all add: nc_def)
  then show ?thesis
    using r setnc lys main empty by (simp add: n_instances_def)
qed

lemma map_classes_example:
  "(case map_classes [''angry'' \<mapsto> ''negative'', ''sad'' \<mapsto> ''negative''] example_B of
      Inl e \<Rightarrow> False
    | Inr d' \<Rightarrow> n_instances d' = 3 \<and> classes d' = [''negative''] \<and> y_arr d' = [0, 0, 0])
   \<and> (case map_classes Map.empty example_B of
      Inl e \<Rightarrow> False
    | Inr d' \<Rightarrow> classes d' = [''angry'', ''sad''] \<and> y_arr d' = [1, 0, 0])"
  by code_simp

text \<open>
  C4. \<open>map_classes\<close> behaves as described on every dataset that holds a label (lemma
  \<open>map_classes_nonempty\<close>), but not on every labelled dataset: a merge whose label filter
  drops every instance has the label vector \<open>np.array([])\<close>, of dtype float64, and
  \<open>arr_map[self.y]\<close> raises \<open>IndexError\<close> on it. Merging the two example corpora with the
  allow-list \<open>{surprise}\<close> gives such a dataset; \<open>map_classes\<close> with the empty mapping, which
  should change nothing, raises.
\<close>

theorem map_classes_empty_labels:
  "(case CombinedDataset_init [example_A, example_B] (PySet [''surprise'']) of
      Inl e \<Rightarrow> False
    | Inr cd \<Rightarrow> y_arr cd = [] \<and> classes cd = [''surprise''] \<and> n_instances cd = 5)
   \<and> bindE (CombinedDataset_init [example_A, example_B] (PySet [''surprise'']))
        (map_classes Map.empty) = Inl IndexError
   \<and> bindE (CombinedDataset_init [example_A, example_B] (PySet [''surprise'']))
        (map_classes [''angry'' \<mapsto> ''negative'']) = Inl IndexError"
  by code_simp

lemma remove_classes_Inr:
  assumes "remove_classes keep d = Inr d'"
  obtains sl xa nms sidx ys where
    "getitems (classes d) (y_arr d) = Inr sl"
    "arr_getitems (x_arr d) (filter (\<lambda>i. sl ! i \<in> set keep) [0..<length sl]) = Inr xa"
    "getitems (names d) (filter (\<lambda>i. sl ! i \<in> set keep) [0..<length sl]) = Inr nms"
    "getitems (speaker_indices d) (filter (\<lambda>i. sl ! i \<in> set keep) [0..<length sl]) = Inr sidx"
    "mapE (index (sort (remdups (filter (\<lambda>c. c \<in> set keep) (classes d)))))
       (filter (\<lambda>l. l \<in> set keep) sl) = Inr ys"
    "ys \<noteq> []"
    "d' = d\<lparr>x_arr := xa, names := nms, speaker_indices := sidx,
             speaker_counts := Some (np_bincount sidx (length (speakers d))),
             speaker_group_indices := sidx,
             classes := sort (remdups (filter (\<lambda>c. c \<in> set keep) (classes d))),
             y_arr := ys, class_counts := Some (np_bincount ys 0)\<rparr>"
  using assms unfolding remove_classes_def Let_def
  by (auto simp: bindE_Inr_iff bincount_labels_Inr)

lemma remove_classes_aligned:
  assumes "remove_classes keep d = Inr d'"
  shows "arr_len (x_arr d') = length (names d')"
    and "length (names d') = length (y_arr d')"
    and "length (y_arr d') = length (speaker_indices d')"
    and "\<forall>i<length (y_arr d').
           y_arr d' ! i < length (classes d') \<and> classes d' ! (y_arr d' ! i) \<in> set keep"
    and "y_arr d' \<noteq> []"
    and "class_counts d' = Some (np_bincount (y_arr d') 0)"
proof -
  from assms obtain sl xa nms sidx ys where
    "getitems (classes d) (y_arr d) = Inr sl" and
    x: "arr_getitems (x_arr d) (filter (\<lambda>i. sl ! i \<in> set keep) [0..<length sl]) = Inr xa" and
    n: "getitems (names d) (filter (\<lambda>i. sl ! i \<in> set keep) [0..<length sl]) = Inr nms" and
    s: "getitems (speaker_indices d) (filter (\<lambda>i. sl ! i \<in> set keep) [0..<length sl]) = Inr sidx" and
    y: "mapE (index (sort (remdups (filter (\<lambda>c. c \<in> set keep) (classes d)))))
       (filter (\<lambda>l. l \<in> set keep) sl) = Inr ys" and
    yne: "ys \<noteq> []" and
    d': "d' = d\<lparr>x_arr := xa, names := nms, speaker_indices := sidx,
             speaker_counts := Some (np_bincount sidx (length (speakers d))),
             speaker_group_indices := sidx,
             classes := sort (remdups (filter (\<lambda>c. c \<in> set keep) (classes d))),
             y_arr := ys, class_counts := Some (np_bincount ys 0)\<rparr>"
    by (rule remove_classes_Inr)
  let ?k = "filter (\<lambda>i. sl ! i \<in> set keep) [0..<length sl]"
  have ly: "length ys = length ?k"
    using mapE_length [OF y] length_filter_indices [of "\<lambda>l. l \<in> set keep" sl] by simp
  show "arr_len (x_arr d') = length (names d')"
    using arr_getitems_len [OF x] getitems_length [OF n] by (simp add: d')
  show "length (names d') = length (y_arr d')"
    using getitems_length [OF n] ly by (simp add: d')
  show "length (y_arr d') = length (speaker_indices d')"
    using getitems_length [OF s] ly by (simp add: d')
  show "y_arr d' \<noteq> []"
    using yne by (simp add: d')
  show "class_counts d' = Some (np_bincount (y_arr d') 0)"
    by (simp add: d')
  show "\<forall>i<length (y_arr d').
           y_arr d' ! i < length (classes d') \<and> classes d' ! (y_arr d' ! i) \<in> set keep"
  proof (intro allI impI)
    fix i assume "i < length (y_arr d')"
    then have i: "i < length (filter (\<lambda>l. l \<in> set keep) sl)"
      using mapE_length [OF y] by (simp add: d')
    let ?cls = "sort (remdups (filter (\<lambda>c. c \<in> set keep) (classes d)))"
    have "index ?cls (filter (\<lambda>l. l \<in> set keep) sl ! i) = Inr (ys ! i)"
      using mapE_nth [OF y i] .
    then have "ys ! i < length ?cls \<and> ?cls ! (ys ! i) = filter (\<lambda>l. l \<in> set keep) sl ! i"
      by (rule index_Inr)
    moreover have "filter (\<lambda>l. l \<in> set keep) sl ! i \<in> set keep"
      using nth_mem [OF i] by simp
    ultimately show "y_arr d' ! i < length (classes d') \<and> classes d' ! (y_arr d' ! i) \<in> set keep"
      by (simp add: d')
  qed
qed

lemma remove_classes_total:
  assumes wf: "\<forall>i\<in>set (y_arr d). i < length (classes d)"
    and lx: "length (y_arr d) \<le> arr_len (x_arr d)"
    and ln: "length (y_arr d) \<le> length (names d)"
    and ls: "length (y_arr d) \<le> length (speaker_indices d)"
    and arr: "\<forall>items. x_arr d \<noteq> ListOfArrays items"
    and kept: "\<exists>i<length (y_arr d). classes d ! (y_arr d ! i) \<in> set keep"
  shows "\<exists>d'. remove_classes keep d = Inr d'"
proof -
  obtain sl where sl: "getitems (classes d) (y_arr d) = Inr sl"
    using getitems_total [of "y_arr d" "classes d"] wf by blast
  have lsl: "length sl = length (y_arr d)" using sl by (rule getitems_length)
  have sln: "\<And>i. i < length sl \<Longrightarrow> sl ! i \<in> set (classes d)"
    using getitems_nth [OF sl] lsl by (metis nth_mem)
  let ?k = "filter (\<lambda>i. sl ! i \<in> set keep) [0..<length sl]"
  have k: "\<forall>i\<in>set ?k. i < length (y_arr d)" using lsl by auto
  obtain xa where xa: "arr_getitems (x_arr d) ?k = Inr xa"
    using arr_getitems_total [of ?k "x_arr d"] k lx arr by fastforce
  obtain nms where nms: "getitems (names d) ?k = Inr nms"
    using getitems_total [of ?k "names d"] k ln by fastforce
  obtain sidx where sidx: "getitems (speaker_indices d) ?k = Inr sidx"
    using getitems_total [of ?k "speaker_indices d"] k ls by fastforce
  let ?cls = "sort (remdups (filter (\<lambda>c. c \<in> set keep) (classes d)))"
  have "\<forall>l\<in>set (filter (\<lambda>l. l \<in> set keep) sl). \<exists>j. index ?cls l = Inr j"
  proof
    fix l assume "l \<in> set (filter (\<lambda>l. l \<in> set keep) sl)"
    then have "l \<in> set keep" "l \<in> set sl" by auto
    then obtain i where "i < length sl" "sl ! i = l" by (auto simp: in_set_conv_nth)
    then have "l \<in> set (classes d)" using sln by blast
    with \<open>l \<in> set keep\<close> have "l \<in> set ?cls" by simp
    then show "\<exists>j. index ?cls l = Inr j" by (rule index_total)
  qed
  then obtain ys where ys: "mapE (index ?cls) (filter (\<lambda>l. l \<in> set keep) sl) = Inr ys"
    using mapE_total by blast
  from kept obtain i where i: "i < length (y_arr d)" "classes d ! (y_arr d ! i) \<in> set keep"
    by blast
  have e: "sl ! i = classes d ! (y_arr d ! i)" using getitems_nth [OF sl i(1)] by simp
  have "sl ! i \<in> set sl" using i(1) lsl by simp
  then have "sl ! i \<in> set (filter (\<lambda>l. l \<in> set keep) sl)"
    using i(2) e by simp
  then have "filter (\<lambda>l. l \<in> set keep) sl \<noteq> []" by (auto simp: filter_empty_conv)
  then have "ys \<noteq> []" using mapE_length [OF ys] by auto
  then show ?thesis
    using sl xa nms sidx ys by (simp add: remove_classes_def Let_def bincount_labels_def)
qed

text \<open>
  C6. After construction, \<open>map_classes\<close> and \<open>remove_classes\<close> every label is below the
  number of classes (lemmas \<open>LabelledDataset_init_labels\<close>, \<open>remove_classes_aligned\<close>). But
  \<open>class_counts\<close> is \<open>np.bincount(y)\<close> without \<open>minlength\<close>: its length is the largest label
  plus one (lemma \<open>length_np_bincount\<close>), not the number of classes. The example container
  has the taxonomy happy, sad and two instances labelled happy; after construction, and
  again after \<open>remove_classes\<close> and \<open>map_classes\<close> calls that keep both classes,
  \<open>class_counts\<close> is \<open>[2]\<close> while there are two classes.
\<close>

theorem class_counts_shorter_than_classes:
  "(case LabelledDataset_init example_io example_table ''demo.nc'' of
      Inl e \<Rightarrow> False
    | Inr d \<Rightarrow>
        classes d = [''happy'', ''sad''] \<and> y_arr d = [0, 0] \<and> class_counts d = Some [2])
   \<and> (case bindE (LabelledDataset_init example_io example_table ''demo.nc'')
               (remove_classes [''happy'', ''sad'']) of
      Inl e \<Rightarrow> False
    | Inr d \<Rightarrow>
        classes d = [''happy'', ''sad''] \<and> y_arr d = [0, 0] \<and> class_counts d = Some [2])
   \<and> (case bindE (LabelledDataset_init example_io example_table ''demo.nc'')
               (map_classes Map.empty) of
      Inl e \<Rightarrow> False
    | Inr d \<Rightarrow>
        classes d = [''happy'', ''sad''] \<and> y_arr d = [0, 0] \<and> class_counts d = Some [2])"
  by code_simp

section \<open>Properties of CombinedDataset\<close>

lemma CombinedDataset_init_Inr:
  assumes "CombinedDataset_init ds labels = Inr cd"
  obtains d0 sps sparts groups gparts sidx gidx xa parts xa' sidx' cls' sl' ys where
    "getitem ds 0 = Inr d0"
    "combine_speakers ds ([], [], [], []) = (sps, sparts, groups, gparts)"
    "np_concatenate sparts = Inr sidx"
    "np_concatenate gparts = Inr gidx"
    "np_concatenate_arr (map x_arr ds) = Inr xa"
    "mapE (\<lambda>d. getitems (classes d) (y_arr d)) ds = Inr parts"
    "filter_labels labels (concat (map classes ds)) xa sidx
       (sort (remdups (concat (map classes ds)))) (concat parts) = Inr (xa', sidx', cls', sl')"
    "mapE (index cls') sl' = Inr ys"
    "cd = \<lparr>corpus = ''combined'',
           names = concat (map (\<lambda>d. map (prefixed (corpus d)) (names d)) ds),
           features = features d0, x_arr = xa', speakers = sps, speaker_indices = sidx',
           speaker_counts = None, male_speakers = None, female_speakers = None,
           male_indices = None, female_indices = None, speaker_groups = groups,
           speaker_group_indices = sidx', classes = cls', y_arr = ys, class_counts = None,
           corpora = map corpus ds,
           corpus_indices = np_repeat_arange (map (\<lambda>d. arr_len (x_arr d)) ds)\<rparr>"
proof -
  obtain sps sparts groups gparts where
    cs: "combine_speakers ds ([], [], [], []) = (sps, sparts, groups, gparts)"
    by (cases "combine_speakers ds ([], [], [], [])") auto
  from assms show ?thesis
    unfolding CombinedDataset_init_def Let_def cs prod.case bindE_Inr_iff
    by (auto simp: bindE_Inr_iff intro: that [OF _ cs])
qed

lemma CombinedDataset_init_fields:
  assumes "CombinedDataset_init ds labels = Inr cd"
  shows "corpora cd = map corpus ds"
    and "corpus_indices cd = np_repeat_arange (map (\<lambda>d. arr_len (x_arr d)) ds)"
    and "names cd = concat (map (\<lambda>d. map (prefixed (corpus d)) (names d)) ds)"
    and "speaker_group_indices cd = speaker_indices cd"
  using assms by (auto elim!: CombinedDataset_init_Inr)

lemma CombinedDataset_init_merge:
  assumes init: "CombinedDataset_init ds PyNone = Inr cd"
  shows "classes cd = sort (remdups (concat (map classes ds)))"
    and "n_instances cd = sum_list (map n_instances ds)"
    and "length (y_arr cd) = sum_list (map (\<lambda>d. length (y_arr d)) ds)"
    and "\<forall>i<length (y_arr cd).
           y_arr cd ! i < length (classes cd)
           \<and> classes cd ! (y_arr cd ! i)
               = concat (map (\<lambda>d. map (nth (classes d)) (y_arr d)) ds) ! i"
proof -
  from init obtain d0 sps sparts groups gparts sidx gidx xa parts xa' sidx' cls' sl' ys where
    "getitem ds 0 = Inr d0"
    "combine_speakers ds ([], [], [], []) = (sps, sparts, groups, gparts)"
    "np_concatenate sparts = Inr sidx"
    "np_concatenate gparts = Inr gidx"
    "np_concatenate_arr (map x_arr ds) = Inr xa" and
    parts: "mapE (\<lambda>d. getitems (classes d) (y_arr d)) ds = Inr parts" and
    fl: "filter_labels PyNone (concat (map classes ds)) xa sidx
       (sort (remdups (concat (map classes ds)))) (concat parts) = Inr (xa', sidx', cls', sl')" and
    ys: "mapE (index cls') sl' = Inr ys" and
    cd: "cd = \<lparr>corpus = ''combined'',
           names = concat (map (\<lambda>d. map (prefixed (corpus d)) (names d)) ds),
           features = features d0, x_arr = xa', speakers = sps, speaker_indices = sidx',
           speaker_counts = None, male_speakers = None, female_speakers = None,
           male_indices = None, female_indices = None, speaker_groups = groups,
           speaker_group_indices = sidx', classes = cls', y_arr = ys, class_counts = None,
           corpora = map corpus ds,
           corpus_indices = np_repeat_arange (map (\<lambda>d. arr_len (x_arr d)) ds)\<rparr>"
    by (rule CombinedDataset_init_Inr)
  have cls: "classes cd = cls'" and y: "y_arr cd = ys" and
    nms: "names cd = concat (map (\<lambda>d. map (prefixed (corpus d)) (names d)) ds)"
    by (simp_all add: cd)
  have c: "cls' = sort (remdups (concat (map classes ds)))" and s: "sl' = concat parts"
    using fl by (simp_all add: filter_labels_def)
  have p: "parts = map (\<lambda>d. map (nth (classes d)) (y_arr d)) ds"
    using parts by (rule mapE_eq_map) (rule getitems_eq)
  show "classes cd = sort (remdups (concat (map classes ds)))"
    using cls c by simp
  have "sum_list (map n_instances ds) = sum_list (map (\<lambda>d. length (names d)) ds)"
    by (induction ds) (simp_all add: n_instances_def)
  moreover have "n_instances cd = sum_list (map (\<lambda>d. length (names d)) ds)"
    by (simp add: n_instances_def nms length_concat comp_def)
  ultimately show "n_instances cd = sum_list (map n_instances ds)"
    by simp
  have ly: "length ys = length sl'" using ys by (rule mapE_length)
  show "length (y_arr cd) = sum_list (map (\<lambda>d. length (y_arr d)) ds)"
    by (simp add: y ly s p length_concat comp_def)
  show "\<forall>i<length (y_arr cd).
           y_arr cd ! i < length (classes cd)
           \<and> classes cd ! (y_arr cd ! i)
               = concat (map (\<lambda>d. map (nth (classes d)) (y_arr d)) ds) ! i"
  proof (intro allI impI)
    fix i assume "i < length (y_arr cd)"
    then have i: "i < length sl'" using y ly by simp
    have "index cls' (sl' ! i) = Inr (ys ! i)" using mapE_nth [OF ys i] .
    then have "ys ! i < length cls' \<and> cls' ! (ys ! i) = sl' ! i" by (rule index_Inr)
    then show "y_arr cd ! i < length (classes cd)
           \<and> classes cd ! (y_arr cd ! i)
               = concat (map (\<lambda>d. map (nth (classes d)) (y_arr d)) ds) ! i"
      by (simp add: y cls s p)
  qed
qed

lemma corpus_counts_entries:
  assumes init: "CombinedDataset_init ds labels = Inr cd"
  shows "length (corpus_counts cd) \<le> length ds"
    and "\<forall>j<length (corpus_counts cd). corpus_counts cd ! j = arr_len (x_arr (ds ! j))"
    and "ds \<noteq> [] \<Longrightarrow> 0 < arr_len (x_arr (last ds)) \<Longrightarrow> length (corpus_counts cd) = length ds"
proof -
  let ?sizes = "map (\<lambda>d. arr_len (x_arr d)) ds"
  have ci: "corpus_indices cd = np_repeat_arange ?sizes"
    using CombinedDataset_init_fields(2) [OF init] .
  have ne: "ds \<noteq> []"
    using init by (auto elim!: CombinedDataset_init_Inr simp: getitem_def split: if_splits)
  have up: "\<forall>x\<in>set (np_repeat_arange ?sizes). x \<le> length ds - 1"
    by (auto simp: set_np_repeat_arange)
  have fm: "fold max (np_repeat_arange ?sizes) 0 \<le> length ds - 1"
    using up by (intro fold_max_upper) simp_all
  have lpos: "0 < length ds" using ne by simp
  have sfm: "Suc (fold max (np_repeat_arange ?sizes) 0) \<le> length ds"
    using fm lpos by arith
  show le: "length (corpus_counts cd) \<le> length ds"
    by (simp add: corpus_counts_def ci length_np_bincount sfm)
  show "\<forall>j<length (corpus_counts cd). corpus_counts cd ! j = arr_len (x_arr (ds ! j))"
  proof (intro allI impI)
    fix j assume j: "j < length (corpus_counts cd)"
    then have "j < length ds" using le by simp
    moreover have "corpus_counts cd ! j = count_list (np_repeat_arange ?sizes) j"
      using j by (simp add: corpus_counts_def ci nth_np_bincount)
    ultimately show "corpus_counts cd ! j = arr_len (x_arr (ds ! j))"
      by (simp add: count_list_np_repeat_arange)
  qed
  show "length (corpus_counts cd) = length ds"
    if "ds \<noteq> []" and pos: "0 < arr_len (x_arr (last ds))"
  proof -
    have "last ds = ds ! (length ds - 1)" using ne by (simp add: last_conv_nth)
    then have "length ds - 1 \<in> set (np_repeat_arange ?sizes)"
      using pos ne by (simp add: set_np_repeat_arange)
    then have "length ds - 1 \<le> fold max (np_repeat_arange ?sizes) 0"
      by (rule fold_max_member)
    moreover have "np_repeat_arange ?sizes \<noteq> []"
      using \<open>length ds - 1 \<in> set (np_repeat_arange ?sizes)\<close> by auto
    ultimately have "Suc (fold max (np_repeat_arange ?sizes) 0) = length ds"
      "np_repeat_arange ?sizes \<noteq> []"
      using sfm by simp_all
    then show ?thesis
      by (simp add: corpus_counts_def ci length_np_bincount)
  qed
qed

lemma CombinedDataset_merge_example:
  "CombinedDataset_init [example_A, example_B] PyNone = Inr example_AB
   \<and> classes example_AB = [''angry'', ''happy'', ''sad'']
   \<and> n_instances example_AB = 5
   \<and> corpus_counts example_AB = [2, 3]"
  by code_simp

text \<open>
  C5. Without a label filter the merged class list is the sorted union of the sources'
  class lists, \<open>n_instances\<close> is the sum of the sources' and every label is re-resolved by
  name (lemma \<open>CombinedDataset_init_merge\<close>). \<open>corpus_counts\<close>, however, is
  \<open>np.bincount(corpus_indices)\<close> without \<open>minlength\<close>: its entries are the sources' instance
  counts, but it has no entry for a source that follows the last one holding an instance
  (lemma \<open>corpus_counts_entries\<close>). Merging example corpus A with a corpus without
  instances gives two corpora and a \<open>corpus_counts\<close> of one entry, so \<open>corpus_counts[1]\<close>
  is out of range where the count of the second source is 0. The same happens when the
  second source is itself a merge whose label filter dropped every instance.
\<close>

theorem corpus_counts_trailing_empty_source:
  "(case CombinedDataset_init [example_A, example_E] PyNone of
     Inl e \<Rightarrow> False
   | Inr cd \<Rightarrow>
       corpora cd = [''A'', ''E''] \<and> n_instances cd = 2 \<and> corpus_indices cd = [0, 0]
       \<and> corpus_counts cd = [2]
       \<and> getitem (corpus_counts cd) 1 = Inl IndexError)
   \<and> (case bindE (CombinedDataset_init [example_A] PyNone) (\<lambda>a.
            bindE (CombinedDataset_init [example_B] (PySet [''surprise''])) (\<lambda>b.
              CombinedDataset_init [a, b] PyNone)) of
     Inl e \<Rightarrow> False
   | Inr cd \<Rightarrow>
       corpora cd = [''combined'', ''combined''] \<and> corpus_indices cd = [0, 0]
       \<and> corpus_counts cd = [2]
       \<and> getitem (corpus_counts cd) 1 = Inl IndexError)"
  by code_simp

text \<open>
  C1. After \<open>remove_classes\<close> the arrays \<open>x\<close>, \<open>names\<close>, \<open>y\<close> and \<open>speaker_indices\<close> have
  one length and every label indexes a class of \<open>keep\<close> (lemma \<open>remove_classes_aligned\<close>).
  The label filter of \<open>CombinedDataset.__init__\<close> does not keep the arrays aligned: it
  re-slices \<open>x\<close>, \<open>speaker_indices\<close> and \<open>y\<close> but leaves \<open>names\<close> and \<open>corpus_indices\<close> as
  they were. Merging the two example corpora with the allow-list \<open>{sad}\<close> keeps two
  instances in \<open>x\<close>, \<open>y\<close> and \<open>speaker_indices\<close> and five in \<open>names\<close> and \<open>corpus_indices\<close>.
\<close>

theorem CombinedDataset_filter_misaligned:
  "case CombinedDataset_init [example_A, example_B] (PySet [''sad'']) of
     Inl e \<Rightarrow> False
   | Inr cd \<Rightarrow>
       x_arr cd = Arr2 [[2], [3]] \<and> y_arr cd = [0, 0] \<and> speaker_indices cd = [2, 3]
       \<and> names cd = [''A_a1'', ''A_a2'', ''B_b1'', ''B_b2'', ''B_b3'']
       \<and> corpus_indices cd = [0, 0, 1, 1, 1]
       \<and> arr_len (x_arr cd) = 2 \<and> n_instances cd = 5"
  by code_simp

text \<open>
  C7. \<open>remove_classes\<close> and \<open>CombinedDataset.__init__\<close> both end by assigning the speaker
  indices to \<open>speaker_group_indices\<close>. In example corpus A the second instance has speaker
  \<open>s3\<close> (speaker index 2) of the second group (group index 1): after \<open>remove_classes\<close> with
  both classes kept its entry is 2, which is not an index into the two speaker groups.
  In the merge of A and B the entries are the offset speaker indices 0, 2, 3, 3, 3, where
  the offset group indices are 0, 1, 2, 2, 2 and there are three groups.
\<close>

theorem speaker_group_indices_are_speaker_indices:
  "(case remove_classes [''happy'', ''sad''] example_A of
      Inl e \<Rightarrow> False
    | Inr d \<Rightarrow>
        speaker_groups d = [{''s1'', ''s2''}, {''s3''}] \<and> speaker_indices d = [0, 2]
        \<and> speaker_group_indices example_A = [0, 1] \<and> speaker_group_indices d = [0, 2])
   \<and> (case CombinedDataset_init [example_A, example_B] PyNone of
      Inl e \<Rightarrow> False
    | Inr cd \<Rightarrow>
        length (speaker_groups cd) = 3 \<and> speaker_indices cd = [0, 2, 3, 3, 3]
        \<and> speaker_group_indices cd = [0, 2, 3, 3, 3])"
  by code_simp

text \<open>
  What \<open>get_corpus_split\<close> returns for a corpus name of the corpora list: the positions of
  \<open>corpus_indices\<close> holding the index of the first occurrence of the name, and the other
  positions of \<open>corpus_indices\<close>.
\<close>

lemma get_corpus_split_positions:
  assumes c: "c \<in> set (corpora cd)"
  shows "\<exists>k corpus_idx other_idx.
           index (corpora cd) c = Inr k \<and> k < length (corpora cd) \<and> corpora cd ! k = c
         \<and> get_corpus_split cd c = Inr (corpus_idx, other_idx)
         \<and> set corpus_idx = {i. i < length (corpus_indices cd) \<and> corpus_indices cd ! i = k}
         \<and> set other_idx = {i. i < length (corpus_indices cd) \<and> corpus_indices cd ! i \<noteq> k}
         \<and> set corpus_idx \<union> set other_idx = {0..<length (corpus_indices cd)}
         \<and> set corpus_idx \<inter> set other_idx = {}
         \<and> distinct corpus_idx \<and> distinct other_idx"
proof -
  obtain k where k: "index (corpora cd) c = Inr k"
    using index_total [OF c] by blast
  have kc: "k < length (corpora cd) \<and> corpora cd ! k = c"
    using k by (rule index_Inr)
  let ?cond = "map (\<lambda>i. i = k) (corpus_indices cd)"
  have r: "get_corpus_split cd c = Inr (np_nonzero ?cond, np_nonzero (map Not ?cond))"
    using k by (simp add: get_corpus_split_def corpus_to_idx_def Let_def)
  have s1: "set (np_nonzero ?cond)
            = {i. i < length (corpus_indices cd) \<and> corpus_indices cd ! i = k}"
    by (auto simp: set_np_nonzero)
  have s2: "set (np_nonzero (map Not ?cond))
            = {i. i < length (corpus_indices cd) \<and> corpus_indices cd ! i \<noteq> k}"
    by (auto simp: set_np_nonzero)
  have u: "set (np_nonzero ?cond) \<union> set (np_nonzero (map Not ?cond))
           = {0..<length (corpus_indices cd)}"
    unfolding s1 s2 by auto
  have i: "set (np_nonzero ?cond) \<inter> set (np_nonzero (map Not ?cond)) = {}"
    unfolding s1 s2 by auto
  show ?thesis
    using k kc r s1 s2 u i sorted_np_nonzero [of ?cond] sorted_np_nonzero [of "map Not ?cond"]
    by simp
qed

text \<open>
  \<open>corpus_indices\<close> has one entry per row of the sources' \<open>x\<close>, \<open>names\<close> one per name of
  the sources: they have the same length when \<open>x\<close> and \<open>names\<close> have in every source.
\<close>

lemma CombinedDataset_init_corpus_indices_length:
  assumes init: "CombinedDataset_init ds labels = Inr cd"
    and aligned: "\<forall>d\<in>set ds. arr_len (x_arr d) = length (names d)"
  shows "length (corpus_indices cd) = n_instances cd"
proof -
  have "sum_list (map (\<lambda>d. arr_len (x_arr d)) ds) = sum_list (map (\<lambda>d. length (names d)) ds)"
    using aligned by (induction ds) auto
  then show ?thesis
    using CombinedDataset_init_fields(2,3) [OF init]
    by (simp add: length_np_repeat_arange n_instances_def length_concat comp_def)
qed

lemma get_corpus_split_example:
  "get_corpus_split example_AB ''A'' = Inr ([0, 1], [2, 3, 4])
   \<and> get_corpus_split example_AB ''B'' = Inr ([2, 3, 4], [0, 1])"
  by code_simp

text \<open>
  C9. \<open>get_corpus_split\<close> returns the positions of \<open>corpus_indices\<close> that hold the corpus's
  index and the other positions of \<open>corpus_indices\<close> (lemma \<open>get_corpus_split_positions\<close>).
  These are the instance indices \<open>0, ..., n_instances - 1\<close> only when \<open>corpus_indices\<close> and
  \<open>names\<close> have the same length, which the constructor ensures for sources whose \<open>x\<close> and
  \<open>names\<close> are aligned (lemma \<open>CombinedDataset_init_corpus_indices_length\<close>) but not for
  every combined dataset it builds. A merge whose label filter dropped instances keeps
  all its names; merged again, it contributes its names to \<open>names\<close> and only its remaining
  rows to \<open>corpus_indices\<close>. In the merge of the merge of A with the merge of B filtered by
  \<open>{surprise}\<close> there are five instances by \<open>n_instances\<close> and two entries in
  \<open>corpus_indices\<close>; the split of the first corpus is \<open>([0, 1], [])\<close>, which leaves out the
  instances 2, 3 and 4.
\<close>

theorem get_corpus_split_misaligned_merge:
  "case bindE (CombinedDataset_init [example_A] PyNone) (\<lambda>a.
          bindE (CombinedDataset_init [example_B] (PySet [''surprise''])) (\<lambda>b.
            CombinedDataset_init [a, b] PyNone)) of
     Inl e \<Rightarrow> False
   | Inr cd \<Rightarrow>
       corpora cd = [''combined'', ''combined''] \<and> n_instances cd = 5
       \<and> corpus_indices cd = [0, 0]
       \<and> corpus_to_idx cd ''combined'' = Inr 0
       \<and> get_corpus_split cd ''combined'' = Inr ([0, 1], [])"
  by code_simp

section \<open>Properties of normalise\<close>

text \<open>
  C10. For a scheme other than \<open>all\<close> and \<open>speaker\<close>, \<open>Dataset.normalise\<close> raises nothing
  and returns the dataset unchanged; for a scheme that is also not \<open>corpus\<close>, so does
  \<open>CombinedDataset.normalise\<close>.
\<close>

theorem normalise_unknown_scheme:
  assumes "scheme \<noteq> ''all''" and "scheme \<noteq> ''speaker''"
  shows "normalise nrm scheme d = Inr d
       \<and> (scheme \<noteq> ''corpus'' \<longrightarrow> CombinedDataset_normalise nrm scheme cd = Inr cd)"
  using assms by (simp add: normalise_def CombinedDataset_normalise_def)

theorem normalise_unknown_scheme_witness:
  "''zscore'' \<noteq> ''all'' \<and> ''zscore'' \<noteq> ''speaker'' \<and> ''zscore'' \<noteq> ''corpus''
   \<and> normalise (map (map (\<lambda>v. v + 1))) ''zscore'' example_A = Inr example_A
   \<and> CombinedDataset_normalise (map (map (\<lambda>v. v + 1))) ''zscore'' example_AB = Inr example_AB"
  using normalise_unknown_scheme [of "''zscore''" "map (map (\<lambda>v. v + 1))" example_A example_AB]
  by simp

end
